theory Spec2Isabelle
  imports Complex_Main
begin

section \<open>Python strings\<close>

text \<open>
  A Python \<open>str\<close> is modelled as a \<open>string\<close>, one \<open>char\<close> per code point: the model
  covers the texts whose code points are below 256 (Latin-1). The character classes
  and the case mappings below are those of Python 3 on that range.
\<close>

definition cp :: "char \<Rightarrow> nat" where
  "cp c = of_char c"

definition is_upper :: "char \<Rightarrow> bool" where
  "is_upper c = (65 \<le> cp c \<and> cp c \<le> 90)"

definition is_lower :: "char \<Rightarrow> bool" where
  "is_lower c = (97 \<le> cp c \<and> cp c \<le> 122)"

definition is_digit :: "char \<Rightarrow> bool" where
  "is_digit c = (48 \<le> cp c \<and> cp c \<le> 57)"

text \<open>
  The code points from 128 to 255 that \<open>str.isalnum\<close> accepts: the ordinal indicators
  170 and 186, the micro sign 181, the superscript digits 178, 179 and 185, the
  fractions 188 to 190, and the letters 192 to 255 without the signs 215 and 247.
\<close>

definition is_latin1_alnum :: "char \<Rightarrow> bool" where
  "is_latin1_alnum c =
     (cp c = 170 \<or> cp c = 178 \<or> cp c = 179 \<or> cp c = 181 \<or> cp c = 185 \<or> cp c = 186
      \<or> (188 \<le> cp c \<and> cp c \<le> 190)
      \<or> (192 \<le> cp c \<and> cp c \<noteq> 215 \<and> cp c \<noteq> 247))"

text \<open>\<open>\w\<close>: what \<open>str.isalnum\<close> accepts, and the underscore.\<close>

definition is_word :: "char \<Rightarrow> bool" where
  "is_word c = (is_upper c \<or> is_lower c \<or> is_digit c \<or> cp c = 95 \<or> is_latin1_alnum c)"

text \<open>\<open>str.isspace\<close> and \<open>\s\<close>: code points 9..13, 28..32, 133 and 160.\<close>

definition is_space :: "char \<Rightarrow> bool" where
  "is_space c = ((9 \<le> cp c \<and> cp c \<le> 13) \<or> (28 \<le> cp c \<and> cp c \<le> 32)
                 \<or> cp c = 133 \<or> cp c = 160)"

text \<open>
  \<open>c.lower()\<close>: the letters A to Z and the Latin-1 capitals 192 to 222 (without the
  sign 215) move up by 32.
\<close>

definition char_lower :: "char \<Rightarrow> char" where
  "char_lower c =
     (if is_upper c \<or> (192 \<le> cp c \<and> cp c \<le> 222 \<and> cp c \<noteq> 215)
      then char_of (cp c + 32) else c)"

text \<open>
  \<open>c.upper()\<close>, where it is one code point below 256: the letters a to z and the
  Latin-1 small letters 224 to 254 (without the sign 247) move down by 32. The upper
  case of 181, 223 and 255 is outside the range; they are left as they are, and no
  pattern of the program names a character they could be compared with.
\<close>

definition char_upper :: "char \<Rightarrow> char" where
  "char_upper c =
     (if is_lower c \<or> (224 \<le> cp c \<and> cp c \<le> 254 \<and> cp c \<noteq> 247)
      then char_of (cp c - 32) else c)"

text \<open>\<open>s.lower()\<close>\<close>

definition lower :: "string \<Rightarrow> string" where
  "lower s = map char_lower s"

text \<open>\<open>s.strip()\<close>: leading and trailing white space removed.\<close>

definition strip :: "string \<Rightarrow> string" where
  "strip s = rev (dropWhile is_space (rev (dropWhile is_space s)))"

text \<open>\<open>s.rstrip('/')\<close>\<close>

definition rstrip_slash :: "string \<Rightarrow> string" where
  "rstrip_slash s = rev (dropWhile (\<lambda>c. c = CHR ''/'') (rev s))"

text \<open>\<open>s.startswith(p)\<close>\<close>

fun startswith :: "string \<Rightarrow> string \<Rightarrow> bool" where
  "startswith s [] = True"
| "startswith [] (p # ps) = False"
| "startswith (c # cs) (p # ps) = (c = p \<and> startswith cs ps)"

text \<open>\<open>s.endswith(p)\<close>\<close>

definition endswith :: "string \<Rightarrow> string \<Rightarrow> bool" where
  "endswith s p = startswith (rev s) (rev p)"

text \<open>\<open>sub in s\<close>: \<open>sub\<close> occurs in \<open>s\<close> as a contiguous run; the empty string always does.\<close>

fun py_in :: "string \<Rightarrow> string \<Rightarrow> bool" where
  "py_in sub [] = (sub = [])"
| "py_in sub (c # cs) = (startswith (c # cs) sub \<or> py_in sub cs)"

text \<open>\<open>s.count(sub)\<close> for a non-empty \<open>sub\<close>: occurrences counted without overlap.\<close>

function count_sub :: "string \<Rightarrow> string \<Rightarrow> nat" where
  "count_sub [] sub = 0"
| "count_sub (c # cs) sub =
     (if sub \<noteq> [] \<and> startswith (c # cs) sub
      then Suc (count_sub (drop (length sub) (c # cs)) sub)
      else count_sub cs sub)"
  by pat_completeness auto
termination
  by (relation "measure (\<lambda>(s, sub). length s)") auto

text \<open>\<open>s.split(sep)\<close> for a one-character separator.\<close>

fun split_on :: "char \<Rightarrow> string \<Rightarrow> string list" where
  "split_on sep [] = [[]]"
| "split_on sep (c # cs) =
     (if c = sep then [] # split_on sep cs
      else (case split_on sep cs of
              [] \<Rightarrow> [[c]]
            | p # ps \<Rightarrow> (c # p) # ps))"

text \<open>\<open>xs[:n]\<close> for \<open>n \<ge> 0\<close> is \<open>take n xs\<close>.\<close>

section \<open>The \<open>pathlib\<close> operations used\<close>

text \<open>
  \<open>Path(p).name\<close>: the last component of \<open>p\<close>; empty components and \<open>.\<close> components
  are dropped when the path is parsed.
\<close>

definition path_name :: "string \<Rightarrow> string" where
  "path_name p =
     (let parts = filter (\<lambda>q. q \<noteq> [] \<and> q \<noteq> ''.'') (split_on CHR ''/'' p)
      in if parts = [] then [] else last parts)"

text \<open>\<open>s.rfind('.')\<close>, with \<open>None\<close> for \<open>-1\<close>.\<close>

fun rfind_dot :: "string \<Rightarrow> nat option" where
  "rfind_dot [] = None"
| "rfind_dot (c # cs) =
     (case rfind_dot cs of
        Some i \<Rightarrow> Some (Suc i)
      | None \<Rightarrow> (if c = CHR ''.'' then Some 0 else None))"

text \<open>
  \<open>Path(p).suffix\<close>: the name from its last dot on, when that dot is neither the first
  nor the last character of the name; otherwise empty.
\<close>

definition path_suffix :: "string \<Rightarrow> string" where
  "path_suffix p =
     (let name = path_name p
      in case rfind_dot name of
           None \<Rightarrow> []
         | Some i \<Rightarrow> (if 0 < i \<and> Suc i < length name then drop i name else []))"

section \<open>Regular expressions\<close>

text \<open>
  The \<open>re\<close> module is modelled by a backtracking matcher over the syntax tree of a
  pattern, which reads the subject from left to right. Each pattern of the program is written below as such a tree, next to its
  source text. The matcher tries alternatives from left to right, greedy repetitions
  longest first and lazy repetitions shortest first, as \<open>re\<close> does, and stops at the first
  success.
\<close>

datatype citem =
    Ch char             \<comment> \<open>one character\<close>
  | Rng char char       \<comment> \<open>a range \<open>a-z\<close>\<close>
  | W                   \<comment> \<open>\<open>\w\<close>\<close>
  | S                   \<comment> \<open>\<open>\s\<close>\<close>

datatype re =
    Str string                     \<comment> \<open>literal text\<close>
  | Cls "citem list"               \<comment> \<open>a class \<open>[...]\<close>, also \<open>\w\<close> and \<open>\s\<close> alone\<close>
  | NCls "citem list"              \<comment> \<open>a negated class \<open>[^...]\<close>\<close>
  | Dot                            \<comment> \<open>\<open>.\<close>\<close>
  | Seq re re
  | Alt re re
  | Rep nat "nat option" bool re   \<comment> \<open>at least, at most (\<open>None\<close>: unbounded), greedy, body\<close>
  | Grp nat re                     \<comment> \<open>capturing group with its number\<close>
  | Bol                            \<comment> \<open>\<open>^\<close>\<close>
  | WordB                          \<comment> \<open>\<open>\b\<close>\<close>

record flags =
  IGNORECASE :: bool
  MULTILINE :: bool
  DOTALL :: bool

definition no_flags :: flags where
  "no_flags = \<lparr>IGNORECASE = False, MULTILINE = False, DOTALL = False\<rparr>"

definition re_I :: flags where
  "re_I = \<lparr>IGNORECASE = True, MULTILINE = False, DOTALL = False\<rparr>"

definition re_M :: flags where
  "re_M = \<lparr>IGNORECASE = False, MULTILINE = True, DOTALL = False\<rparr>"

definition re_SI :: flags where
  "re_SI = \<lparr>IGNORECASE = True, MULTILINE = False, DOTALL = True\<rparr>"

definition re_S :: flags where
  "re_S = \<lparr>IGNORECASE = False, MULTILINE = False, DOTALL = True\<rparr>"

fun in_item :: "citem \<Rightarrow> char \<Rightarrow> bool" where
  "in_item (Ch a) c = (c = a)"
| "in_item (Rng a b) c = (cp a \<le> cp c \<and> cp c \<le> cp b)"
| "in_item W c = is_word c"
| "in_item S c = is_space c"

definition in_items :: "flags \<Rightarrow> citem list \<Rightarrow> char \<Rightarrow> bool" where
  "in_items f items c =
     (list_ex (\<lambda>it. in_item it c) items
      \<or> (IGNORECASE f \<and> (list_ex (\<lambda>it. in_item it (char_lower c)) items
                          \<or> list_ex (\<lambda>it. in_item it (char_upper c)) items)))"

definition char_eq :: "flags \<Rightarrow> char \<Rightarrow> char \<Rightarrow> bool" where
  "char_eq f a c = (if IGNORECASE f then char_lower a = char_lower c else a = c)"

text \<open>
  A matcher state: the character before the current position (\<open>None\<close> at the start of
  the subject), the rest of the subject from the current position on, and the groups
  captured so far, the latest capture of a group first.
\<close>

type_synonym mstate = "char option \<times> string \<times> (nat \<times> string) list"

definition prev_of :: "mstate \<Rightarrow> char option" where
  "prev_of st = fst st"

definition rest_of :: "mstate \<Rightarrow> string" where
  "rest_of st = fst (snd st)"

definition caps_of :: "mstate \<Rightarrow> (nat \<times> string) list" where
  "caps_of st = snd (snd st)"

text \<open>
  The literal \<open>lit\<close> read at the start of \<open>s\<close>: what is left of \<open>s\<close>, and the last
  character read.
\<close>

fun eat :: "flags \<Rightarrow> string \<Rightarrow> char option \<Rightarrow> string \<Rightarrow> (char option \<times> string) option" where
  "eat f [] p s = Some (p, s)"
| "eat f (a # as) p [] = None"
| "eat f (a # as) p (x # xs) = (if char_eq f a x then eat f as (Some x) xs else None)"

text \<open>One character of the subject that satisfies \<open>ok\<close>.\<close>

fun one_char :: "(char \<Rightarrow> bool) \<Rightarrow> (mstate \<Rightarrow> mstate option) \<Rightarrow> string \<Rightarrow> (nat \<times> string) list \<Rightarrow>
                 mstate option" where
  "one_char ok k [] c = None"
| "one_char ok k (x # xs) c = (if ok x then k (Some x, xs, c) else None)"

text \<open>Whether a word character stands before, and at, the current position.\<close>

fun word_before :: "char option \<Rightarrow> bool" where
  "word_before None = False"
| "word_before (Some x) = is_word x"

fun word_here :: "string \<Rightarrow> bool" where
  "word_here [] = False"
| "word_here (x # xs) = is_word x"

text \<open>
  A repetition with at most \<open>n\<close> further rounds. Every round has to move forward, so a
  subject with \<open>n\<close> characters left never needs more than \<open>n\<close> rounds: called with the
  length of what is left, the bound is never what stops the repetition.
\<close>

fun rep :: "nat \<Rightarrow> ((mstate \<Rightarrow> mstate option) \<Rightarrow> mstate \<Rightarrow> mstate option) \<Rightarrow>
            nat \<Rightarrow> nat option \<Rightarrow> bool \<Rightarrow> (mstate \<Rightarrow> mstate option) \<Rightarrow> mstate \<Rightarrow> mstate option" where
  "rep 0 body lo hi greedy k st = (if lo = 0 then k st else None)"
| "rep (Suc n) body lo hi greedy k st =
     (if hi = Some 0 then k st
      else if 0 < lo then
        body (\<lambda>st'. if length (rest_of st') < length (rest_of st)
                    then rep n body (lo - 1) (map_option (\<lambda>h. h - 1) hi) greedy k st'
                    else None) st
      else if greedy then
        (case body (\<lambda>st'. if length (rest_of st') < length (rest_of st)
                          then rep n body 0 (map_option (\<lambda>h. h - 1) hi) greedy k st'
                          else None) st of
           Some r \<Rightarrow> Some r
         | None \<Rightarrow> k st)
      else
        (case k st of
           Some r \<Rightarrow> Some r
         | None \<Rightarrow> body (\<lambda>st'. if length (rest_of st') < length (rest_of st)
                               then rep n body 0 (map_option (\<lambda>h. h - 1) hi) greedy k st'
                               else None) st))"

text \<open>
  \<open>match_re f r k st\<close>: match \<open>r\<close> from state \<open>st\<close>, then continue with \<open>k\<close>; \<open>None\<close>
  when every alternative fails.
\<close>

primrec match_re :: "flags \<Rightarrow> re \<Rightarrow> (mstate \<Rightarrow> mstate option) \<Rightarrow> mstate \<Rightarrow> mstate option" where
  "match_re f (Str lit) k st =
     (case eat f lit (prev_of st) (rest_of st) of
        None \<Rightarrow> None
      | Some (p, s) \<Rightarrow> k (p, s, caps_of st))"
| "match_re f (Cls items) k st = one_char (in_items f items) k (rest_of st) (caps_of st)"
| "match_re f (NCls items) k st =
     one_char (\<lambda>x. \<not> in_items f items x) k (rest_of st) (caps_of st)"
| "match_re f Dot k st =
     one_char (\<lambda>x. DOTALL f \<or> x \<noteq> CHR 0x0A) k (rest_of st) (caps_of st)"
| "match_re f (Seq a b) k st = match_re f a (match_re f b k) st"
| "match_re f (Alt a b) k st =
     (case match_re f a k st of
        Some r \<Rightarrow> Some r
      | None \<Rightarrow> match_re f b k st)"
| "match_re f (Rep lo hi greedy a) k st =
     rep (length (rest_of st)) (match_re f a) lo hi greedy k st"
| "match_re f (Grp n a) k st =
     match_re f a
       (\<lambda>st'. k (prev_of st', rest_of st',
                  (n, take (length (rest_of st) - length (rest_of st')) (rest_of st)) # caps_of st'))
       st"
| "match_re f Bol k st =
     (if prev_of st = None \<or> (MULTILINE f \<and> prev_of st = Some (CHR 0x0A)) then k st else None)"
| "match_re f WordB k st =
     (if word_before (prev_of st) \<noteq> word_here (rest_of st) then k st else None)"

text \<open>The number of capturing groups of a pattern.\<close>

primrec ngroups :: "re \<Rightarrow> nat" where
  "ngroups (Str lit) = 0"
| "ngroups (Cls items) = 0"
| "ngroups (NCls items) = 0"
| "ngroups Dot = 0"
| "ngroups (Seq a b) = ngroups a + ngroups b"
| "ngroups (Alt a b) = ngroups a + ngroups b"
| "ngroups (Rep lo hi greedy a) = ngroups a"
| "ngroups (Grp n a) = Suc (ngroups a)"
| "ngroups Bol = 0"
| "ngroups WordB = 0"

text \<open>A match object: the text it matched, and its groups.\<close>

record rmatch =
  m_text :: string
  m_caps :: "(nat \<times> string) list"

text \<open>
  The match of \<open>r\<close> that starts where \<open>s\<close> starts, after the character \<open>p\<close>, if there is
  one; with it, the last character of the match and what follows the match.
\<close>

definition match_here ::
    "flags \<Rightarrow> re \<Rightarrow> char option \<Rightarrow> string \<Rightarrow> (rmatch \<times> char option \<times> string) option" where
  "match_here f r p s =
     (case match_re f r Some (p, s, []) of
        None \<Rightarrow> None
      | Some st \<Rightarrow>
          Some (\<lparr>m_text = take (length s - length (rest_of st)) s, m_caps = caps_of st\<rparr>,
                prev_of st, rest_of st))"

text \<open>
  \<open>re.finditer\<close>: the matches from left to right, without overlap. The search goes on
  where the last match ended, or one character further after an empty match (no
  pattern of the program matches the empty text).
\<close>

function finditer_from :: "flags \<Rightarrow> re \<Rightarrow> char option \<Rightarrow> string \<Rightarrow> rmatch list" where
  "finditer_from f r p [] =
     (case match_here f r p [] of
        None \<Rightarrow> []
      | Some found \<Rightarrow> [fst found])"
| "finditer_from f r p (x # xs) =
     (case match_here f r p (x # xs) of
        None \<Rightarrow> finditer_from f r (Some x) xs
      | Some found \<Rightarrow>
          fst found #
          (if length (snd (snd found)) \<le> length xs
           then finditer_from f r (fst (snd found)) (snd (snd found))
           else finditer_from f r (Some x) xs))"
  by pat_completeness auto
termination
  by (relation "measure (\<lambda>(f, r, p, s). length s)") auto

definition finditer :: "re \<Rightarrow> string \<Rightarrow> flags \<Rightarrow> rmatch list" where
  "finditer r s f = finditer_from f r None s"

text \<open>\<open>match.group(0)\<close>\<close>

definition group0 :: "rmatch \<Rightarrow> string" where
  "group0 mt = m_text mt"

text \<open>
  \<open>match.group(n)\<close> for \<open>n \<ge> 1\<close>, with the empty string for a group that took no part
  in the match, as \<open>re.findall\<close> gives it.
\<close>

definition match_group :: "rmatch \<Rightarrow> nat \<Rightarrow> string" where
  "match_group mt n = (case map_of (m_caps mt) n of None \<Rightarrow> [] | Some g \<Rightarrow> g)"

text \<open>
  \<open>re.findall\<close> for a pattern with at most one group: the group of each match, or the
  whole match when the pattern has no group.
\<close>

definition findall :: "re \<Rightarrow> string \<Rightarrow> flags \<Rightarrow> string list" where
  "findall r s f =
     map (\<lambda>mt. if ngroups r = 0 then group0 mt else match_group mt 1) (finditer r s f)"

text \<open>\<open>re.search(...)\<close> read as a truth value: some position has a match.\<close>

fun search_from :: "flags \<Rightarrow> re \<Rightarrow> char option \<Rightarrow> string \<Rightarrow> bool" where
  "search_from f r p [] = (match_here f r p [] \<noteq> None)"
| "search_from f r p (x # xs) =
     (if match_here f r p (x # xs) \<noteq> None then True else search_from f r (Some x) xs)"

definition search :: "re \<Rightarrow> string \<Rightarrow> flags \<Rightarrow> bool" where
  "search r s f = search_from f r None s"

text \<open>\<open>re.match\<close>: a match at the start of the subject only.\<close>

definition re_match :: "re \<Rightarrow> string \<Rightarrow> rmatch option" where
  "re_match r s = map_option fst (match_here no_flags r None s)"

text \<open>
  \<open>re.sub(r, repl, s)\<close> for a replacement text without group references: the subject
  with each match replaced.
\<close>

function sub_from :: "flags \<Rightarrow> re \<Rightarrow> string \<Rightarrow> char option \<Rightarrow> string \<Rightarrow> string" where
  "sub_from f r repl p [] =
     (case match_here f r p [] of
        None \<Rightarrow> []
      | Some found \<Rightarrow> repl)"
| "sub_from f r repl p (x # xs) =
     (case match_here f r p (x # xs) of
        None \<Rightarrow> x # sub_from f r repl (Some x) xs
      | Some found \<Rightarrow>
          repl @
          (if length (snd (snd found)) \<le> length xs
           then sub_from f r repl (fst (snd found)) (snd (snd found))
           else x # sub_from f r repl (Some x) xs))"
  by pat_completeness auto
termination
  by (relation "measure (\<lambda>(f, r, repl, p, s). length s)") auto

definition re_sub :: "re \<Rightarrow> string \<Rightarrow> string \<Rightarrow> flags \<Rightarrow> string" where
  "re_sub r repl s f = sub_from f r repl None s"

text \<open>Abbreviations for the pattern trees.\<close>

definition re_plus :: "re \<Rightarrow> re" where
  "re_plus a = Rep 1 None True a"

definition re_star :: "re \<Rightarrow> re" where
  "re_star a = Rep 0 None True a"

definition re_lazy_star :: "re \<Rightarrow> re" where
  "re_lazy_star a = Rep 0 None False a"

definition re_opt :: "re \<Rightarrow> re" where
  "re_opt a = Rep 0 (Some 1) True a"

fun seqs :: "re list \<Rightarrow> re" where
  "seqs [] = Str []"
| "seqs [a] = a"
| "seqs (a # as) = Seq a (seqs as)"

fun alts :: "string list \<Rightarrow> re" where
  "alts [] = NCls [Rng (CHR 0x00) (CHR 0xFF)]"
| "alts [a] = Str a"
| "alts (a # as) = Alt (Str a) (alts as)"


section \<open>Sets of strings\<close>

text \<open>
  \<open>list(set(xs))\<close> keeps one copy of each element of \<open>xs\<close>, in the order in which the
  set happens to hold them, which depends on the hash values of the strings. A
  \<open>set_order\<close> is any such way of listing a set.
\<close>

typedef set_order = "{f :: string list \<Rightarrow> string list. \<forall>xs. distinct (f xs) \<and> set (f xs) = set xs}"
  by (rule exI [of _ remdups]) simp

setup_lifting type_definition_set_order

lift_definition list_set :: "set_order \<Rightarrow> string list \<Rightarrow> string list" is "\<lambda>f. f" .

text \<open>One order among these: elements in the order of their last occurrence.\<close>

lift_definition remdups_order :: set_order is remdups
  by simp

section \<open>External collaborators\<close>

datatype error =
    ValueError string          \<comment> \<open>raised by the program itself\<close>
  | HTTPError nat              \<comment> \<open>\<open>raise_for_status\<close> on a 4xx or 5xx answer\<close>
  | ExternalError string       \<comment> \<open>any exception raised inside a library or a service\<close>

text \<open>
  An HTTP answer: its status code, the tree listing its JSON body holds (for a tree
  request), and its body decoded as UTF-8 (\<open>None\<close> when it is not valid UTF-8) and as
  Latin-1 (for a file request).
\<close>

record tree_item =
  item_type :: string
  item_path :: string
  item_sha :: string
  item_size :: "int option"
  item_url :: string

record response =
  status_code :: nat
  json_tree :: "tree_item list"
  content_utf8 :: "string option"
  content_latin1 :: string

datatype column =
    ColS "string list"
  | ColI "int list"
  | ColB "bool list"
  | ColF "real list"
  | ColV "real list list"

text \<open>
  The ingester: the name of its embedding model, and what the program calls and does not
  define: \<open>urllib.parse.urljoin\<close> (which raises on some references, a malformed
  host for one), the order of Python's string sets,
  \<open>requests.get\<close> (its answers taken not to change during a run), the chunker of
  \<open>chonkie\<close> (given the language and the text, the texts of its chunks),
  \<open>uuid.uuid4\<close> and \<open>datetime.now\<close> (given the path of the file and the
  position of the chunk they are called for), the embedding model, the insert and the
  flush of the collection (the flush given the number of batches flushed before), the
  clock (given how many times it was read before) and the moment at which the task of a
  file completes.
\<close>

record ingester =
  model_name :: string
  urljoin :: "string \<Rightarrow> string \<Rightarrow> error + string"
  set_iter :: set_order
  http_get :: "string \<Rightarrow> error + response"
  chunker :: "string \<Rightarrow> string \<Rightarrow> error + string list"
  uuid4 :: "string \<Rightarrow> nat \<Rightarrow> string"
  now_isoformat :: "string \<Rightarrow> nat \<Rightarrow> string"
  model_encode :: "string list \<Rightarrow> error + real list list"
  collection_insert :: "column list \<Rightarrow> error + unit"
  collection_flush :: "nat \<Rightarrow> error + unit"
  clock :: "nat \<Rightarrow> real"
  completes_at :: "string \<Rightarrow> nat"

section \<open>Link extraction\<close>

text \<open>The characters that cannot be written inside a string literal here.\<close>

definition dquote :: char where "dquote = CHR 0x22"
definition squote :: char where "squote = CHR 0x27"
definition backtick :: char where "backtick = CHR 0x60"

text \<open>
  \<open>self.image_patterns\<close>, each with the group the loop takes from its matches: group 2
  for the pattern that starts with \<open>![\<close> (Markdown), group 1 for the one that starts with
  \<open><img\<close> (HTML), the whole match (0) for the third.

  \<^verbatim>\<open>!\[([^\]]*)\]\(([^)]+)\)\<close>

  \<^verbatim>\<open><img[^>]+src=["\']([^"\']+)["\'][^>]*>\<close>

  \<^verbatim>\<open>\bhttps?://[^\s]+\.(?:png|jpg|jpeg|gif|svg|webp|bmp|ico)\b\<close>
\<close>

definition md_image :: re where
  "md_image = seqs [Str ''!['', Grp 1 (re_star (NCls [Ch (CHR '']'')])), Str ''](''  ,
                    Grp 2 (re_plus (NCls [Ch (CHR '')'')])), Str '')'']"

definition html_image :: re where
  "html_image = seqs [Str ''<img'', re_plus (NCls [Ch (CHR ''>'')]), Str ''src='',
                      Cls [Ch dquote, Ch squote],
                      Grp 1 (re_plus (NCls [Ch dquote, Ch squote])),
                      Cls [Ch dquote, Ch squote],
                      re_star (NCls [Ch (CHR ''>'')]), Str ''>'']"

definition direct_image :: re where
  "direct_image = seqs [WordB, Str ''http'', re_opt (Str ''s''), Str ''://'',
                        re_plus (NCls [S]), Str ''.'',
                        alts [''png'', ''jpg'', ''jpeg'', ''gif'', ''svg'', ''webp'', ''bmp'', ''ico''],
                        WordB]"

definition image_patterns :: "(nat \<times> re) list" where
  "image_patterns = [(2, md_image), (1, html_image), (0, direct_image)]"

text \<open>
  \<open>attachment_patterns\<close>:

  \<^verbatim>\<open>\[([^\]]+)\]\(([^)]+\.(?:pdf|doc|docx|ppt|pptx|xls|xlsx|zip|tar|gz))\)\<close>

  \<^verbatim>\<open>href=["\']([^"\']+\.(?:pdf|doc|docx|ppt|pptx|xls|xlsx|zip|tar|gz))["\']\<close>
\<close>

definition attachment_exts :: re where
  "attachment_exts =
     alts [''pdf'', ''doc'', ''docx'', ''ppt'', ''pptx'', ''xls'', ''xlsx'', ''zip'', ''tar'', ''gz'']"

definition md_attachment :: re where
  "md_attachment = seqs [Str ''['', Grp 1 (re_plus (NCls [Ch (CHR '']'')])), Str ''](''  ,
                         Grp 2 (seqs [re_plus (NCls [Ch (CHR '')'')]), Str ''.'', attachment_exts]),
                         Str '')'']"

definition href_attachment :: re where
  "href_attachment = seqs [Str ''href='', Cls [Ch dquote, Ch squote],
                           Grp 1 (seqs [re_plus (NCls [Ch dquote, Ch squote]), Str ''.'',
                                        attachment_exts]),
                           Cls [Ch dquote, Ch squote]]"

definition attachment_patterns :: "re list" where
  "attachment_patterns = [md_attachment, href_attachment]"

text \<open>
  \<open>link_patterns\<close>:

  \<^verbatim>\<open>\[([^\]]+)\]\((https?://[^)]+)\)\<close>

  \<^verbatim>\<open>href=["\']([^"\']+)["\']\<close>

  \<^verbatim>\<open>\bhttps?://[^\s\)\]\},;"\'`<>]+\<close>
\<close>

definition md_link :: re where
  "md_link = seqs [Str ''['', Grp 1 (re_plus (NCls [Ch (CHR '']'')])), Str ''](''  ,
                   Grp 2 (seqs [Str ''http'', re_opt (Str ''s''), Str ''://'',
                                re_plus (NCls [Ch (CHR '')'')])]),
                   Str '')'']"

definition href_link :: re where
  "href_link = seqs [Str ''href='', Cls [Ch dquote, Ch squote],
                     Grp 1 (re_plus (NCls [Ch dquote, Ch squote])),
                     Cls [Ch dquote, Ch squote]]"

definition direct_link :: re where
  "direct_link = seqs [WordB, Str ''http'', re_opt (Str ''s''), Str ''://'',
                       re_plus (NCls [S, Ch (CHR '')''), Ch (CHR '']''), Ch (CHR ''}''),
                                      Ch (CHR '',''), Ch (CHR '';''), Ch dquote, Ch squote,
                                      Ch backtick, Ch (CHR ''<''), Ch (CHR ''>'')])]"

definition link_patterns :: "re list" where
  "link_patterns = [md_link, href_link, direct_link]"

text \<open>\<open>url.startswith(('http://', 'https://'))\<close>\<close>

definition is_http :: "string \<Rightarrow> bool" where
  "is_http url = (startswith url ''http://'' \<or> startswith url ''https://'')"

text \<open>
  Relative URLs are resolved when a base is given; \<open>urljoin\<close> may raise, and nothing
  catches that.
\<close>

definition resolve :: "ingester \<Rightarrow> string \<Rightarrow> string \<Rightarrow> error + string" where
  "resolve self base_url url =
     (if base_url \<noteq> [] \<and> \<not> is_http url then urljoin self base_url url else Inr url)"

text \<open>The URLs of a list resolved one after the other, up to the first that raises.\<close>

fun resolve_all :: "ingester \<Rightarrow> string \<Rightarrow> string list \<Rightarrow> error + string list" where
  "resolve_all self base_url [] = Inr []"
| "resolve_all self base_url (url # urls) =
     (case resolve self base_url url of
        Inl e \<Rightarrow> Inl e
      | Inr r \<Rightarrow>
          (case resolve_all self base_url urls of
             Inl e \<Rightarrow> Inl e
           | Inr rs \<Rightarrow> Inr (r # rs)))"

text \<open>
  What the image patterns and the attachment patterns find, in the order of the loops:
  pattern after pattern, match after match.
\<close>

definition image_urls :: "string \<Rightarrow> string list" where
  "image_urls content =
     concat (map (\<lambda>(g, pattern).
                    map (\<lambda>mt. if g = 0 then group0 mt else match_group mt g)
                        (finditer pattern content re_I))
                 image_patterns)"

definition attachment_urls :: "string \<Rightarrow> string list" where
  "attachment_urls content =
     concat (map (\<lambda>pattern.
                    map (\<lambda>mt. if 1 < ngroups pattern then match_group mt 2
                               else match_group mt 1)
                        (finditer pattern content re_I))
                 attachment_patterns)"

text \<open>
  The three lists as the loops fill them, before duplicates are removed. Each image and
  each attachment is resolved as soon as it is found, so the first URL that makes
  \<open>urljoin\<close> raise ends the extraction.
\<close>

definition found_images :: "ingester \<Rightarrow> string \<Rightarrow> string \<Rightarrow> error + string list" where
  "found_images self content base_url = resolve_all self base_url (image_urls content)"

definition found_attachments :: "ingester \<Rightarrow> string \<Rightarrow> string \<Rightarrow> error + string list" where
  "found_attachments self content base_url = resolve_all self base_url (attachment_urls content)"

definition filtered_exts :: "string list" where
  "filtered_exts = [''.png'', ''.jpg'', ''.jpeg'', ''.gif'', ''.svg'', ''.pdf'', ''.doc'']"

definition found_links :: "string \<Rightarrow> string list" where
  "found_links content =
     concat (map (\<lambda>pattern.
                    filter (\<lambda>link_url. is_http link_url
                                        \<and> \<not> list_ex (\<lambda>e. py_in e (lower link_url)) filtered_exts)
                      (map (\<lambda>mt. if 1 < ngroups pattern then match_group mt 2
                                  else if 0 < ngroups pattern then match_group mt 1
                                  else group0 mt)
                           (finditer pattern content no_flags)))
                 link_patterns)"

text \<open>
  \<open>extract_images_and_links\<close>: images, attachments, external links, or the exception
  of \<open>urljoin\<close>.
\<close>

definition extract_images_and_links ::
    "ingester \<Rightarrow> string \<Rightarrow> string \<Rightarrow> error + string list \<times> string list \<times> string list" where
  "extract_images_and_links self content base_url =
     (case found_images self content base_url of
        Inl e \<Rightarrow> Inl e
      | Inr image_links \<Rightarrow>
          (case found_attachments self content base_url of
             Inl e \<Rightarrow> Inl e
           | Inr attachment_links \<Rightarrow>
               Inr (list_set (set_iter self) image_links,
                    list_set (set_iter self) attachment_links,
                    list_set (set_iter self) (found_links content))))"

section \<open>Content analysis\<close>

text \<open>Pieces shared by the patterns: \<open>\s+\<close>, \<open>\s*\<close>, \<open>\w+\<close> and a keyword followed by \<open>\s+\<close>.\<close>

definition sp1 :: re where "sp1 = re_plus (Cls [S])"
definition sp0 :: re where "sp0 = re_star (Cls [S])"
definition w1 :: re where "w1 = re_plus (Cls [W])"

definition kw :: "string \<Rightarrow> re" where
  "kw word = Seq (Str word) sp1"

text \<open>\<open>extension_map\<close>\<close>

definition extension_map :: "(string \<times> string) list" where
  "extension_map =
     [(''.py'', ''python''), (''.js'', ''javascript''), (''.ts'', ''typescript''),
      (''.java'', ''java''), (''.cpp'', ''cpp''), (''.c'', ''c''), (''.h'', ''c''),
      (''.css'', ''css''), (''.html'', ''html''), (''.xml'', ''xml''),
      (''.md'', ''markdown''), (''.rst'', ''rst''), (''.txt'', ''text''),
      (''.json'', ''json''), (''.yaml'', ''yaml''), (''.yml'', ''yaml''),
      (''.sh'', ''shell''), (''.bat'', ''batch''), (''.go'', ''go''),
      (''.rs'', ''rust''), (''.rb'', ''ruby''), (''.php'', ''php''), (''.sql'', ''sql'')]"

text \<open>
  The signatures of \<open>_detect_language\<close>, in the order of the dictionary:

  python: \<^verbatim>\<open>def\s+\w+\<close>, \<^verbatim>\<open>import\s+\w+\<close>, \<^verbatim>\<open>from\s+\w+\s+import\<close>, \<^verbatim>\<open>class\s+\w+\<close>

  javascript: \<^verbatim>\<open>function\s+\w+\<close>, \<^verbatim>\<open>const\s+\'\w+\<close>, \<^verbatim>\<open>let\s+\w+\<close>, \<^verbatim>\<open>var\s+\w+\<close>

  java: \<^verbatim>\<open>public\s+class\<close>, \<^verbatim>\<open>private\s+\w+\<close>, \<^verbatim>\<open>public\s+static\<close>

  cpp: \<^verbatim>\<open>#include\<close>, \<^verbatim>\<open>std::\<close>, \<^verbatim>\<open>namespace\s+\w+\<close>

  css: \<^verbatim>\<open>\.[\w-]+\s*{\<close>, \<^verbatim>\<open>#[\w-]+\s*{\<close>, \<^verbatim>\<open>@media\<close>

  html: \<^verbatim>\<open><html>\<close>, \<^verbatim>\<open><div>\<close>, \<^verbatim>\<open><!DOCTYPE\<close>

  markdown: \<^verbatim>\<open>^#{1,6}\s\<close>, \<^verbatim>\<open>\[.*\]\(.*\)\<close>, three backticks
\<close>

definition fence :: string where
  "fence = [backtick, backtick, backtick]"

definition language_patterns :: "(string \<times> re list) list" where
  "language_patterns =
     [(''python'', [Seq (kw ''def'') w1, Seq (kw ''import'') w1,
                    seqs [kw ''from'', w1, sp1, Str ''import''], Seq (kw ''class'') w1]),
      (''javascript'', [Seq (kw ''function'') w1, seqs [kw ''const'', Str [squote], w1],
                        Seq (kw ''let'') w1, Seq (kw ''var'') w1]),
      (''java'', [Seq (kw ''public'') (Str ''class''), Seq (kw ''private'') w1,
                  Seq (kw ''public'') (Str ''static'')]),
      (''cpp'', [Str ''#include'', Str ''std::'', Seq (kw ''namespace'') w1]),
      (''css'', [seqs [Str ''.'', re_plus (Cls [W, Ch (CHR ''-'')]), sp0, Str ''{''],
                 seqs [Str ''#'', re_plus (Cls [W, Ch (CHR ''-'')]), sp0, Str ''{''],
                 Str ''@media'']),
      (''html'', [Str ''<html>'', Str ''<div>'', Str ''<!DOCTYPE'']),
      (''markdown'', [seqs [Bol, Rep 1 (Some 6) True (Str ''#''), Cls [S]],
                      seqs [Str ''['', re_star Dot, Str ''](''  , re_star Dot, Str '')''],
                      Str fence])]"

text \<open>
  The first language of the table with at least two of its signatures found; the loop
  returns at the first such language.
\<close>

fun vote :: "string \<Rightarrow> (string \<times> re list) list \<Rightarrow> string" where
  "vote content [] = ''unknown''"
| "vote content ((lang, lang_patterns) # rest) =
     (if 2 \<le> length (filter (\<lambda>pattern. search pattern content re_M) lang_patterns)
      then lang else vote content rest)"

definition detect_language :: "string \<Rightarrow> string \<Rightarrow> string" where
  "detect_language content file_extension =
     (case map_of extension_map file_extension of
        Some lang \<Rightarrow> lang
      | None \<Rightarrow> vote content language_patterns)"

text \<open>
  The patterns of \<open>_extract_code_elements\<close>.

  python: \<^verbatim>\<open>def\s+(\w+)\<close>, \<^verbatim>\<open>class\s+(\w+)\<close>, \<^verbatim>\<open>(?:from\s+[\w.]+\s+)?import\s+[\w.,\s*]+\<close>

  javascript: \<^verbatim>\<open>function\s+(\w+)\<close>, \<^verbatim>\<open>(\w+)\s*=\s*function\<close>, \<^verbatim>\<open>const\s+(\w+)\s*=\s*\(\<close>,
  \<^verbatim>\<open>(\w+)\s*:\s*function\<close>; \<^verbatim>\<open>class\s+(\w+)\<close>; \<^verbatim>\<open>import\s+.*?from\s+["\'].*?["\']\<close>

  java: \<^verbatim>\<open>(?:public|private|protected)?\s*\w+\s+(\w+)\s*\(\<close>, \<^verbatim>\<open>(?:public\s+)?class\s+(\w+)\<close>,
  \<^verbatim>\<open>import\s+[\w.]+;\<close>
\<close>

definition def_name :: re where
  "def_name = Seq (kw ''def'') (Grp 1 w1)"

definition class_name :: re where
  "class_name = Seq (kw ''class'') (Grp 1 w1)"

definition py_import :: re where
  "py_import = seqs [re_opt (seqs [kw ''from'', re_plus (Cls [W, Ch (CHR ''.'')]), sp1]),
                     kw ''import'',
                     re_plus (Cls [W, Ch (CHR ''.''), Ch (CHR '',''), S, Ch (CHR ''*'')])]"

definition js_func_patterns :: "re list" where
  "js_func_patterns =
     [Seq (kw ''function'') (Grp 1 w1),
      seqs [Grp 1 w1, sp0, Str ''='', sp0, Str ''function''],
      seqs [kw ''const'', Grp 1 w1, sp0, Str ''='', sp0, Str ''(''],
      seqs [Grp 1 w1, sp0, Str '':'', sp0, Str ''function'']]"

definition js_import :: re where
  "js_import = seqs [kw ''import'', re_lazy_star Dot, kw ''from'', Cls [Ch dquote, Ch squote],
                     re_lazy_star Dot, Cls [Ch dquote, Ch squote]]"

definition java_method :: re where
  "java_method = seqs [re_opt (alts [''public'', ''private'', ''protected'']), sp0, w1, sp1,
                       Grp 1 w1, sp0, Str ''('']"

definition java_class :: re where
  "java_class = seqs [re_opt (kw ''public''), kw ''class'', Grp 1 w1]"

definition java_import :: re where
  "java_import = seqs [kw ''import'', re_plus (Cls [W, Ch (CHR ''.'')]), Str '';'']"

text \<open>The dictionary \<open>elements\<close>, with its keys \<open>functions\<close>, \<open>classes\<close> and \<open>imports\<close>.\<close>

record code_elements =
  el_functions :: "string list"
  el_classes :: "string list"
  el_imports :: "string list"

text \<open>\<open>_extract_code_elements\<close>\<close>

definition extract_code_elements :: "ingester \<Rightarrow> string \<Rightarrow> string \<Rightarrow> code_elements" where
  "extract_code_elements self content language =
     (let elements =
        (if language = ''python'' then
           \<lparr>el_functions = list_set (set_iter self) (findall def_name content no_flags),
            el_classes = list_set (set_iter self) (findall class_name content no_flags),
            el_imports = list_set (set_iter self) (findall py_import content no_flags)\<rparr>
         else if language = ''javascript'' then
           \<lparr>el_functions = concat (map (\<lambda>pattern. findall pattern content no_flags) js_func_patterns),
            el_classes = list_set (set_iter self) (findall class_name content no_flags),
            el_imports = list_set (set_iter self) (findall js_import content no_flags)\<rparr>
         else if language = ''java'' then
           \<lparr>el_functions = list_set (set_iter self) (findall java_method content no_flags),
            el_classes = list_set (set_iter self) (findall java_class content no_flags),
            el_imports = list_set (set_iter self) (findall java_import content no_flags)\<rparr>
         else \<lparr>el_functions = [], el_classes = [], el_imports = []\<rparr>)
      in \<lparr>el_functions = take 20 (list_set (set_iter self) (el_functions elements)),
          el_classes = take 20 (list_set (set_iter self) (el_classes elements)),
          el_imports = take 20 (list_set (set_iter self) (el_imports elements))\<rparr>)"

text \<open>
  \<open>code_indicators\<close>: \<^verbatim>\<open>def\s+\w+\<close>, \<^verbatim>\<open>function\s+\w+\<close>, \<^verbatim>\<open>class\s+\w+\<close>, \<^verbatim>\<open>import\s+\w+\<close>,
  \<^verbatim>\<open>#include\<close>, \<^verbatim>\<open>namespace\s+\w+\<close>, \<^verbatim>\<open>public\s+class\<close>, \<^verbatim>\<open>private\s+\w+\<close>,
  \<^verbatim>\<open>const\s+\w+\s*=\<close>, \<^verbatim>\<open>var\s+\w+\s*=\<close>, \<^verbatim>\<open>let\s+\w+\s*=\<close>
\<close>

definition code_indicators :: "re list" where
  "code_indicators =
     [Seq (kw ''def'') w1, Seq (kw ''function'') w1, Seq (kw ''class'') w1, Seq (kw ''import'') w1,
      Str ''#include'', Seq (kw ''namespace'') w1, Seq (kw ''public'') (Str ''class''),
      Seq (kw ''private'') w1,
      seqs [kw ''const'', w1, sp0, Str ''=''], seqs [kw ''var'', w1, sp0, Str ''=''],
      seqs [kw ''let'', w1, sp0, Str ''='']]"

text \<open>\<open>_has_code_content\<close>; the language is not looked at.\<close>

definition has_code_content :: "string \<Rightarrow> string \<Rightarrow> bool" where
  "has_code_content content language =
     list_ex (\<lambda>pattern. search pattern content re_I) code_indicators"

text \<open>
  \<open>doc_indicators\<close>: \<^verbatim>\<open>""".*?"""\<close>, \<^verbatim>\<open>'''.*?'''\<close>, \<^verbatim>\<open>/\*\*.*?\*/\<close>, \<^verbatim>\<open>##\s+\w+\<close>, \<^verbatim>\<open>###\s+\w+\<close>,
  \<^verbatim>\<open>#{1,6}\s+[A-Z]\<close>, \<^verbatim>\<open>@param\<close>, \<^verbatim>\<open>@return\<close>, \<^verbatim>\<open>@throws\<close>, \<^verbatim>\<open>TODO:\<close>, \<^verbatim>\<open>FIXME:\<close>, \<^verbatim>\<open>NOTE:\<close>
\<close>

definition doc_indicators :: "re list" where
  "doc_indicators =
     [seqs [Str [dquote, dquote, dquote], re_lazy_star Dot, Str [dquote, dquote, dquote]],
      seqs [Str [squote, squote, squote], re_lazy_star Dot, Str [squote, squote, squote]],
      seqs [Str ''/**'', re_lazy_star Dot, Str ''*/''],
      seqs [Str ''##'', sp1, w1],
      seqs [Str ''###'', sp1, w1],
      seqs [Rep 1 (Some 6) True (Str ''#''), sp1, Cls [Rng (CHR ''A'') (CHR ''Z'')]],
      Str ''@param'', Str ''@return'', Str ''@throws'', Str ''TODO:'', Str ''FIXME:'', Str ''NOTE:'']"

text \<open>\<open>_has_documentation_content\<close>\<close>

definition has_documentation_content :: "string \<Rightarrow> bool" where
  "has_documentation_content content =
     list_ex (\<lambda>pattern. search pattern content re_SI) doc_indicators"

text \<open>
  The patterns of \<open>_extract_keywords\<close>: fenced code (three backticks, \<^verbatim>\<open>.*?\<close>, three
  backticks), inline code (a backtick, one or more characters that are not backticks, a
  backtick), the brackets \<^verbatim>\<open>[(){}\[\]<>]\<close> and the words \<^verbatim>\<open>\b[a-zA-Z]{3,}\b\<close>.
\<close>

definition fenced_code :: re where
  "fenced_code = seqs [Str fence, re_lazy_star Dot, Str fence]"

definition inline_code :: re where
  "inline_code = seqs [Str [backtick], re_plus (NCls [Ch backtick]), Str [backtick]]"

definition brackets :: re where
  "brackets = Cls [Ch (CHR ''(''), Ch (CHR '')''), Ch (CHR ''{''), Ch (CHR ''}''),
                   Ch (CHR ''[''), Ch (CHR '']''), Ch (CHR ''<''), Ch (CHR ''>'')]"

definition alpha_word :: re where
  "alpha_word = seqs [WordB,
                      Rep 3 None True (Cls [Rng (CHR ''a'') (CHR ''z''), Rng (CHR ''A'') (CHR ''Z'')]),
                      WordB]"

definition stopwords :: "string list" where
  "stopwords =
     [''the'', ''and'', ''for'', ''are'', ''but'', ''not'', ''you'', ''all'', ''can'', ''has'', ''had'',
      ''this'', ''that'', ''with'', ''from'', ''they'', ''will'', ''been'', ''have'', ''were'',
      ''said'', ''each'', ''which'', ''their'', ''time'', ''would'', ''about'', ''into'',
      ''function'', ''class'', ''method'', ''return'', ''value'', ''parameter'', ''variable'']"

text \<open>
  \<open>word_freq\<close> as an association list: its keys in the order of their first appearance,
  as the dictionary keeps them.
\<close>

fun count_word :: "(string \<times> nat) list \<Rightarrow> string \<Rightarrow> (string \<times> nat) list" where
  "count_word [] word = [(word, 1)]"
| "count_word ((k, n) # rest) word =
     (if k = word then (k, Suc n) # rest else (k, n) # count_word rest word)"

text \<open>
  \<open>_extract_keywords\<close>. The sort is stable and its \<open>reverse=True\<close> keeps words of
  equal frequency in their first order, so it is an ascending stable sort on the
  negated frequency.
\<close>

definition extract_keywords :: "string \<Rightarrow> string list" where
  "extract_keywords content =
     (let cleaned1 = re_sub fenced_code [] content re_S;
          cleaned2 = re_sub inline_code [] cleaned1 no_flags;
          cleaned_content = re_sub brackets '' '' cleaned2 no_flags;
          wordlist = findall alpha_word (lower cleaned_content) no_flags;
          word_freq = foldl count_word []
                        (filter (\<lambda>word. word \<notin> set stopwords \<and> 2 < length word) wordlist)
      in take 15 (map fst (sort_key (\<lambda>(word, n). - int n) word_freq)))"

text \<open>
  The patterns of \<open>_calculate_quality_scores\<close>: \<^verbatim>\<open>[.!?]\<close>, \<^verbatim>\<open>\b\w{3,}\b\<close>, \<^verbatim>\<open>\b\w+\b\<close>,
  \<^verbatim>\<open>https?://[^\s]+\<close> and \<^verbatim>\<open>[A-Z][a-z]+(?:[A-Z][a-z]+)*\<close>.
\<close>

definition sentence_end :: re where
  "sentence_end = Cls [Ch (CHR ''.''), Ch (CHR ''!''), Ch (CHR ''?'')]"

definition long_word :: re where
  "long_word = seqs [WordB, Rep 3 None True (Cls [W]), WordB]"

definition any_word :: re where
  "any_word = seqs [WordB, w1, WordB]"

definition url_ref :: re where
  "url_ref = seqs [Str ''http'', re_opt (Str ''s''), Str ''://'', re_plus (NCls [S])]"

definition camel_case :: re where
  "camel_case =
     (let hump = Seq (Cls [Rng (CHR ''A'') (CHR ''Z'')]) (re_plus (Cls [Rng (CHR ''a'') (CHR ''z'')]))
      in Seq hump (re_star hump))"

record quality_scores =
  qs_content_quality_score :: real
  qs_semantic_density_score :: real
  qs_information_value_score :: real

text \<open>\<open>sum\<close> of a list of truth values: how many hold.\<close>

definition count_true :: "bool list \<Rightarrow> nat" where
  "count_true bs = length (filter (\<lambda>b. b) bs)"

text \<open>
  \<open>_calculate_quality_scores\<close>. Python's floats are modelled by the reals: the scores are
  quotients of small integers and a minimum with 1.
\<close>

definition calculate_quality_scores :: "string \<Rightarrow> code_elements \<Rightarrow> bool \<Rightarrow> quality_scores" where
  "calculate_quality_scores content elements has_documentation =
     (let quality_indicators =
            [100 < length content,
             py_in [CHR 0x0A, CHR 0x0A] content,
             list_ex (\<lambda>marker. py_in marker content) [''#'', ''##'', ''###''],
             has_documentation,
             0 < length (el_functions elements),
             2 < length (findall sentence_end content no_flags)];
          content_quality_score =
            real (count_true quality_indicators) / real (length quality_indicators);
          unique_words = length (remdups (findall long_word (lower content) no_flags));
          total_words = length (findall any_word content no_flags);
          semantic_density =
            (if 0 < total_words then real unique_words / real total_words else 0);
          info_indicators =
            [length (el_functions elements),
             length (el_classes elements),
             length (findall url_ref content no_flags),
             length (findall camel_case content no_flags),
             count_sub content fence];
          max_info_value = sum_list [10, 5, 5, 20, 10 :: nat];
          actual_info_value =
            sum_list (map (\<lambda>(val, max_val). min val max_val)
                          (zip info_indicators [10, 5, 5, 20, 10]));
          information_value_score = real actual_info_value / real max_info_value
      in \<lparr>qs_content_quality_score = content_quality_score,
          qs_semantic_density_score = min (semantic_density * 2) 1,
          qs_information_value_score = information_value_score\<rparr>)"

text \<open>The dictionary returned by \<open>analyze_content\<close>.\<close>

record content_analysis =
  ca_language :: string
  ca_has_code :: bool
  ca_has_documentation :: bool
  ca_function_names :: "string list"
  ca_class_names :: "string list"
  ca_import_statements :: "string list"
  ca_keywords :: "string list"
  ca_content_quality_score :: real
  ca_semantic_density_score :: real
  ca_information_value_score :: real

section \<open>The repository tree\<close>

text \<open>A file information dictionary, its keys prefixed with \<open>fi_\<close>.\<close>

record file_info =
  fi_path :: string
  fi_name :: string
  fi_extension :: string
  fi_sha :: string
  fi_size :: int
  fi_url :: string
  fi_download_url :: string
  fi_source_link :: string
  fi_raw_url :: string
  fi_blob_url :: string

definition supported_extensions :: "string list" where
  "supported_extensions =
     [''.md'', ''.txt'', ''.rst'', ''.py'', ''.js'', ''.ts'', ''.java'', ''.cpp'', ''.c'', ''.h'',
      ''.css'', ''.html'', ''.xml'', ''.json'', ''.yaml'', ''.yml'', ''.toml'', ''.ini'',
      ''.sh'', ''.bat'', ''.ps1'', ''.go'', ''.rs'', ''.rb'', ''.php'', ''.sql'', ''.r'']"

text \<open>\<open>response.raise_for_status()\<close> raises on the status codes 400 to 599.\<close>

definition raises_for_status :: "response \<Rightarrow> bool" where
  "raises_for_status response = (400 \<le> status_code response \<and> status_code response < 600)"

text \<open>The loop over the tree: blobs with a supported extension or with none.\<close>

definition tree_files :: "string \<Rightarrow> string \<Rightarrow> string \<Rightarrow> tree_item list \<Rightarrow> file_info list" where
  "tree_files repo_owner repo_name branch tree =
     concat (map (\<lambda>item.
        if item_type item = ''blob'' then
          (let file_path = item_path item;
               file_extension = lower (path_suffix file_path)
           in if file_extension \<in> set supported_extensions \<or> file_extension = [] then
                [\<lparr>fi_path = file_path,
                  fi_name = path_name file_path,
                  fi_extension = file_extension,
                  fi_sha = item_sha item,
                  fi_size = (case item_size item of None \<Rightarrow> 0 | Some n \<Rightarrow> n),
                  fi_url = item_url item,
                  fi_download_url = ''https://raw.githubusercontent.com/'' @ repo_owner @ ''/''
                                    @ repo_name @ ''/'' @ branch @ ''/'' @ file_path,
                  fi_source_link = ''https://github.com/'' @ repo_owner @ ''/'' @ repo_name
                                   @ ''/blob/'' @ branch @ ''/'' @ file_path,
                  fi_raw_url = ''https://raw.githubusercontent.com/'' @ repo_owner @ ''/''
                               @ repo_name @ ''/'' @ branch @ ''/'' @ file_path,
                  fi_blob_url = ''https://github.com/'' @ repo_owner @ ''/'' @ repo_name
                                @ ''/blob/'' @ branch @ ''/'' @ file_path\<rparr>]
              else [])
        else []) tree)"

text \<open>
  \<open>fetch_repository_tree\<close>. It calls itself once, with \<open>master\<close>, when the repository
  request is answered 404 and the branch is \<open>main\<close>.
\<close>

function fetch_repository_tree ::
    "ingester \<Rightarrow> string \<Rightarrow> string \<Rightarrow> string \<Rightarrow> error + file_info list" where
  "fetch_repository_tree self repo_owner repo_name branch =
     (case http_get self (''https://api.github.com/repos/'' @ repo_owner @ ''/'' @ repo_name) of
        Inl e \<Rightarrow> Inl e
      | Inr response \<Rightarrow>
          if status_code response = 404 then
            (if branch = ''main''
             then fetch_repository_tree self repo_owner repo_name ''master''
             else Inl (ValueError (''Repository '' @ repo_owner @ ''/'' @ repo_name
                                   @ '' not found or not accessible'')))
          else if raises_for_status response then Inl (HTTPError (status_code response))
          else
            (case http_get self (''https://api.github.com/repos/'' @ repo_owner @ ''/''
                                 @ repo_name @ ''/git/trees/'' @ branch @ ''?recursive=1'') of
               Inl e \<Rightarrow> Inl e
             | Inr response2 \<Rightarrow>
                 if raises_for_status response2 then Inl (HTTPError (status_code response2))
                 else Inr (tree_files repo_owner repo_name branch (json_tree response2))))"
  by pat_completeness auto
termination
  by (relation "measure (\<lambda>(self, repo_owner, repo_name, branch). if branch = ''main'' then 1 else 0)")
     auto

text \<open>
  \<open>fetch_file_content\<close>: \<open>None\<close> on any failure. The Latin-1 decoding of a body never
  fails.
\<close>

definition fetch_file_content :: "ingester \<Rightarrow> file_info \<Rightarrow> string option" where
  "fetch_file_content self file_info =
     (case http_get self (fi_download_url file_info) of
        Inl e \<Rightarrow> None
      | Inr response \<Rightarrow>
          if raises_for_status response then None
          else (case content_utf8 response of
                  Some content \<Rightarrow> Some content
                | None \<Rightarrow> Some (content_latin1 response)))"

section \<open>Chunking and analysis of a file\<close>

text \<open>\<open>semantic_chunk_content\<close>: the texts of the chunks, or the exception of the chunker.\<close>

definition semantic_chunk_content :: "ingester \<Rightarrow> string \<Rightarrow> file_info \<Rightarrow> error + string list" where
  "semantic_chunk_content self content file_info =
     (let language = detect_language content (fi_extension file_info)
      in chunker self (if language = ''unknown'' then ''text'' else language) content)"

text \<open>\<open>analyze_content\<close>\<close>

definition analyze_content :: "ingester \<Rightarrow> string \<Rightarrow> file_info \<Rightarrow> content_analysis" where
  "analyze_content self content file_info =
     (let language = detect_language content (fi_extension file_info);
          elements = extract_code_elements self content language;
          has_code = has_code_content content language;
          has_documentation = has_documentation_content content;
          keywords = extract_keywords content;
          scores = calculate_quality_scores content elements has_documentation
      in \<lparr>ca_language = language,
          ca_has_code = has_code,
          ca_has_documentation = has_documentation,
          ca_function_names = el_functions elements,
          ca_class_names = el_classes elements,
          ca_import_statements = el_imports elements,
          ca_keywords = keywords,
          ca_content_quality_score = qs_content_quality_score scores,
          ca_semantic_density_score = qs_semantic_density_score scores,
          ca_information_value_score = qs_information_value_score scores\<rparr>)"

section \<open>JSON encoding of a list of strings\<close>

definition bslash :: char where "bslash = CHR 0x5C"

definition hex_digit :: "nat \<Rightarrow> char" where
  "hex_digit n = ''0123456789abcdef'' ! (n mod 16)"

text \<open>
  \<open>json.dumps\<close> escapes the quote, the backslash and every character outside the range
  from the space to the tilde.
\<close>

definition json_escape :: "char \<Rightarrow> string" where
  "json_escape c =
     (if c = dquote then [bslash, dquote]
      else if c = bslash then [bslash, bslash]
      else if c = CHR 0x0A then [bslash, CHR ''n'']
      else if c = CHR 0x0D then [bslash, CHR ''r'']
      else if c = CHR 0x09 then [bslash, CHR ''t'']
      else if c = CHR 0x08 then [bslash, CHR ''b'']
      else if c = CHR 0x0C then [bslash, CHR ''f'']
      else if cp c < 32 \<or> 126 < cp c
      then [bslash, CHR ''u'', CHR ''0'', CHR ''0'', hex_digit (cp c div 16), hex_digit (cp c)]
      else [c])"

definition json_string :: "string \<Rightarrow> string" where
  "json_string s = [dquote] @ concat (map json_escape s) @ [dquote]"

fun join :: "string \<Rightarrow> string list \<Rightarrow> string" where
  "join sep [] = []"
| "join sep [s] = s"
| "join sep (s # t # rest) = s @ sep @ join sep (t # rest)"

text \<open>\<open>json.dumps(xs)\<close> for a list of strings \<open>xs\<close>.\<close>

definition json_dumps :: "string list \<Rightarrow> string" where
  "json_dumps items = ''['' @ join '', '' (map json_string items) @ '']''"

section \<open>Chunk records\<close>

text \<open>
  The metadata dictionary of a chunk, one field per key; the key \<open>id\<close> is the field
  \<open>chunk_id\<close>.
\<close>

record chunk_metadata =
  chunk_id :: string
  document :: string
  file_name :: string
  file_path :: string
  file_type :: string
  file_size :: int
  source_link :: string
  github_url :: string
  raw_url :: string
  blob_url :: string
  chunk_index :: nat
  chunk_length :: nat
  chunk_method :: string
  has_images :: bool
  image_links :: string
  image_count :: nat
  attachment_links :: string
  has_links :: bool
  external_links :: string
  language :: string
  has_code :: bool
  has_documentation :: bool
  function_names :: string
  class_names :: string
  import_statements :: string
  "keywords" :: string
  repo_name :: string
  repo_owner :: string
  branch :: string
  commit_sha :: string
  created_at :: string
  embedding_model :: string
  content_quality_score :: real
  semantic_density_score :: real
  information_value_score :: real

text \<open>
  The images of the file that count as relevant to a chunk: the name of the link, or
  one of the parts of that name between its dots, occurs in the chunk, letter case
  ignored.
\<close>

definition chunk_images_of :: "string list \<Rightarrow> string \<Rightarrow> string list" where
  "chunk_images_of links chunk =
     filter (\<lambda>img_link.
               (let img_name = lower (path_name img_link)
                in py_in img_name (lower chunk)
                   \<or> list_ex (\<lambda>part. py_in part (lower chunk)) (split_on CHR ''.'' img_name)))
            links"

text \<open>The attachments relevant to a chunk: the name of the link occurs in the chunk.\<close>

definition chunk_attachments_of :: "string list \<Rightarrow> string \<Rightarrow> string list" where
  "chunk_attachments_of links chunk =
     filter (\<lambda>att_link. py_in (lower (path_name att_link)) (lower chunk)) links"

text \<open>The documentation URL of a file: \<open>.rst\<close> becomes \<open>.html\<close>.\<close>

definition docs_url_of :: "string \<Rightarrow> string" where
  "docs_url_of path =
     ''https://docs.beagle.cc/''
     @ (if endswith path ''.rst'' then take (length path - 4) path @ ''.html'' else path)"

text \<open>The dictionary built in the loop of \<open>process_file\<close> for chunk number \<open>i\<close>.\<close>

definition make_chunk_metadata ::
    "ingester \<Rightarrow> file_info \<Rightarrow> string \<Rightarrow> string \<Rightarrow> string \<Rightarrow> string list \<Rightarrow> string list \<Rightarrow>
     string list \<Rightarrow> content_analysis \<Rightarrow> nat \<Rightarrow> string \<Rightarrow> chunk_metadata" where
  "make_chunk_metadata self file_info repo_owner' repo_name' branch'
       all_images all_attachments all_external analysis i chunk =
     (let chunk_images = chunk_images_of all_images chunk;
          chunk_attachments = chunk_attachments_of all_attachments chunk
      in \<lparr>chunk_id = uuid4 self (fi_path file_info) i,
          document = chunk,
          file_name = fi_name file_info,
          file_path = fi_path file_info,
          file_type = fi_extension file_info,
          file_size = fi_size file_info,
          source_link = docs_url_of (fi_path file_info),
          github_url = fi_source_link file_info,
          raw_url = fi_raw_url file_info,
          blob_url = fi_blob_url file_info,
          chunk_index = i,
          chunk_length = length chunk,
          chunk_method = ''semantic'',
          has_images = (0 < length chunk_images),
          image_links = json_dumps chunk_images,
          image_count = length chunk_images,
          attachment_links = json_dumps chunk_attachments,
          has_links = (0 < length all_external),
          external_links = json_dumps (take 10 all_external),
          language = ca_language analysis,
          has_code = ca_has_code analysis,
          has_documentation = ca_has_documentation analysis,
          function_names = json_dumps (ca_function_names analysis),
          class_names = json_dumps (ca_class_names analysis),
          import_statements = json_dumps (ca_import_statements analysis),
          keywords = json_dumps (ca_keywords analysis),
          repo_name = repo_name',
          repo_owner = repo_owner',
          branch = branch',
          commit_sha = ''latest'',
          created_at = now_isoformat self (fi_path file_info) i,
          embedding_model = model_name self,
          content_quality_score = ca_content_quality_score analysis,
          semantic_density_score = ca_semantic_density_score analysis,
          information_value_score = ca_information_value_score analysis\<rparr>)"

text \<open>\<open>base_url\<close> in \<open>process_file\<close>: the base against which the links of a file are resolved.\<close>

definition base_url_of :: "string \<Rightarrow> string \<Rightarrow> string \<Rightarrow> string" where
  "base_url_of repo_owner' repo_name' branch' =
     ''https://github.com/'' @ repo_owner' @ ''/'' @ repo_name' @ ''/blob/'' @ branch' @ ''/''"

text \<open>
  \<open>process_file\<close>: the chunk records of a file, or the exception of \<open>urljoin\<close> or of
  the chunker. A file
  whose content could not be fetched, is empty or has fewer than 50 characters once
  stripped gives no record; a chunk with fewer than 30 characters once stripped is
  passed over, and the numbering goes on.
\<close>

definition process_file ::
    "ingester \<Rightarrow> file_info \<Rightarrow> string \<Rightarrow> string \<Rightarrow> string \<Rightarrow> error + chunk_metadata list" where
  "process_file self file_info repo_owner' repo_name' branch' =
     (case fetch_file_content self file_info of
        None \<Rightarrow> Inr []
      | Some content \<Rightarrow>
          if content = [] \<or> length (strip content) < 50 then Inr []
          else
            (let base_url = base_url_of repo_owner' repo_name' branch'
             in case extract_images_and_links self content base_url of
                  Inl e \<Rightarrow> Inl e
                | Inr links \<Rightarrow>
                    (let analysis = analyze_content self content file_info
                     in case semantic_chunk_content self content file_info of
                          Inl e \<Rightarrow> Inl e
                        | Inr chunks \<Rightarrow>
                            Inr (concat (map (\<lambda>(i, chunk).
                                   if length (strip chunk) < 30 then []
                                   else [make_chunk_metadata self file_info
                                           repo_owner' repo_name' branch'
                                           (fst links) (fst (snd links)) (snd (snd links))
                                           analysis i chunk])
                                 (enumerate 0 chunks))))))"

section \<open>Embeddings and storage\<close>

text \<open>
  What a run has done to its collaborators: the batches given to the embedding model,
  the batches inserted into the collection, and the number of flushes.
\<close>

record effects =
  encoded :: "string list list"
  inserted :: "column list list"
  flushes :: nat

definition no_effects :: effects where
  "no_effects = \<lparr>encoded = [], inserted = [], flushes = 0\<rparr>"

text \<open>\<open>xs[i:j]\<close> for \<open>0 \<le> i \<le> j\<close>\<close>

definition slice :: "'a list \<Rightarrow> nat \<Rightarrow> nat \<Rightarrow> 'a list" where
  "slice xs i j = take (j - i) (drop i xs)"

text \<open>
  The loop of \<open>generate_embeddings_batch\<close> from position \<open>i\<close> on, with the embeddings
  gathered so far. An exception of the model ends it.
\<close>

function embed_from ::
    "ingester \<Rightarrow> string list \<Rightarrow> nat \<Rightarrow> nat \<Rightarrow> real list list \<Rightarrow> effects \<Rightarrow>
     (error + real list list) \<times> effects" where
  "embed_from self chunks batch_size i all_embeddings eff =
     (if batch_size = 0 \<or> length chunks \<le> i then (Inr all_embeddings, eff)
      else
        (let batch = slice chunks i (i + batch_size);
             eff' = eff\<lparr>encoded := encoded eff @ [batch]\<rparr>
         in case model_encode self batch of
              Inl e \<Rightarrow> (Inl e, eff')
            | Inr embeddings \<Rightarrow>
                embed_from self chunks batch_size (i + batch_size) (all_embeddings @ embeddings) eff'))"
  by pat_completeness auto
termination
  by (relation "measure (\<lambda>(self, chunks, batch_size, i, all_embeddings, eff). length chunks - i)")
     auto

text \<open>\<open>generate_embeddings_batch\<close>; \<open>range\<close> refuses a step of zero.\<close>

definition generate_embeddings_batch ::
    "ingester \<Rightarrow> string list \<Rightarrow> nat \<Rightarrow> effects \<Rightarrow> (error + real list list) \<times> effects" where
  "generate_embeddings_batch self chunks batch_size eff =
     (if batch_size = 0 then (Inl (ValueError ''range() arg 3 must not be zero''), eff)
      else embed_from self chunks batch_size 0 [] eff)"



text \<open>\<open>insert_data\<close>: one column per field of the schema, in the order of the schema.\<close>

definition insert_data :: "chunk_metadata list \<Rightarrow> real list list \<Rightarrow> column list" where
  "insert_data batch_metadata batch_embeddings =
     [ColS (map chunk_id batch_metadata),
      ColS (map (\<lambda>item. take 65535 (document item)) batch_metadata),
      ColV batch_embeddings,
      ColS (map (\<lambda>item. take 500 (file_name item)) batch_metadata),
      ColS (map (\<lambda>item. take 1000 (file_path item)) batch_metadata),
      ColS (map (\<lambda>item. take 50 (file_type item)) batch_metadata),
      ColI (map file_size batch_metadata),
      ColS (map (\<lambda>item. take 2000 (source_link item)) batch_metadata),
      ColS (map (\<lambda>item. take 2000 (raw_url item)) batch_metadata),
      ColS (map (\<lambda>item. take 2000 (blob_url item)) batch_metadata),
      ColI (map (\<lambda>item. int (chunk_index item)) batch_metadata),
      ColI (map (\<lambda>item. int (chunk_length item)) batch_metadata),
      ColS (map (\<lambda>item. take 50 (chunk_method item)) batch_metadata),
      ColB (map has_images batch_metadata),
      ColS (map (\<lambda>item. take 5000 (image_links item)) batch_metadata),
      ColI (map (\<lambda>item. int (image_count item)) batch_metadata),
      ColS (map (\<lambda>item. take 5000 (attachment_links item)) batch_metadata),
      ColS (map (\<lambda>item. take 50 (language item)) batch_metadata),
      ColB (map has_code batch_metadata),
      ColB (map has_documentation batch_metadata),
      ColB (map has_links batch_metadata),
      ColS (map (\<lambda>item. take 3000 (external_links item)) batch_metadata),
      ColS (map (\<lambda>item. take 2000 (function_names item)) batch_metadata),
      ColS (map (\<lambda>item. take 1000 (class_names item)) batch_metadata),
      ColS (map (\<lambda>item. take 2000 (import_statements item)) batch_metadata),
      ColS (map (\<lambda>item. take 2000 (keywords item)) batch_metadata),
      ColS (map (\<lambda>item. take 200 (repo_name item)) batch_metadata),
      ColS (map (\<lambda>item. take 100 (repo_owner item)) batch_metadata),
      ColS (map (\<lambda>item. take 100 (branch item)) batch_metadata),
      ColS (map (\<lambda>item. take 100 (commit_sha item)) batch_metadata),
      ColS (map (\<lambda>item. take 50 (created_at item)) batch_metadata),
      ColS (map (\<lambda>item. take 100 (embedding_model item)) batch_metadata),
      ColF (map content_quality_score batch_metadata),
      ColF (map semantic_density_score batch_metadata),
      ColF (map information_value_score batch_metadata)]"

text \<open>
  The loop of \<open>store_chunks_batch\<close> from position \<open>i\<close> on: each batch is inserted, then
  flushed. An exception of the collection ends it, and what was inserted stays.
\<close>

function store_from ::
    "ingester \<Rightarrow> chunk_metadata list \<Rightarrow> real list list \<Rightarrow> nat \<Rightarrow> nat \<Rightarrow> effects \<Rightarrow>
     (error + unit) \<times> effects" where
  "store_from self chunk_metadata_list embeddings batch_size i eff =
     (if batch_size = 0 \<or> length chunk_metadata_list \<le> i then (Inr (), eff)
      else
        (let end_idx = min (i + batch_size) (length chunk_metadata_list);
             batch_metadata = slice chunk_metadata_list i end_idx;
             batch_embeddings = slice embeddings i end_idx;
             data = insert_data batch_metadata batch_embeddings
         in case collection_insert self data of
              Inl e \<Rightarrow> (Inl e, eff)
            | Inr u \<Rightarrow>
                (let eff' = eff\<lparr>inserted := inserted eff @ [data]\<rparr>
                 in case collection_flush self (flushes eff') of
                      Inl e \<Rightarrow> (Inl e, eff')
                    | Inr u' \<Rightarrow>
                        store_from self chunk_metadata_list embeddings batch_size (i + batch_size)
                          (eff'\<lparr>flushes := Suc (flushes eff')\<rparr>))))"
  by pat_completeness auto
termination
  by (relation "measure (\<lambda>(self, chunk_metadata_list, embeddings, batch_size, i, eff).
                           length chunk_metadata_list - i)")
     auto

text \<open>\<open>store_chunks_batch\<close>\<close>

definition store_chunks_batch ::
    "ingester \<Rightarrow> chunk_metadata list \<Rightarrow> real list list \<Rightarrow> nat \<Rightarrow> effects \<Rightarrow>
     (error + unit) \<times> effects" where
  "store_chunks_batch self chunk_metadata_list embeddings batch_size eff =
     (if batch_size = 0 then (Inl (ValueError ''range() arg 3 must not be zero''), eff)
      else store_from self chunk_metadata_list embeddings batch_size 0 eff)"

section \<open>The pipeline\<close>

text \<open>The pattern of a repository URL: \<^verbatim>\<open>https://github\.com/([^/]+)/([^/]+)/?\<close>\<close>

definition repo_pattern :: re where
  "repo_pattern = seqs [Str ''https://github.com/'', Grp 1 (re_plus (NCls [Ch (CHR ''/'')])),
                        Str ''/'', Grp 2 (re_plus (NCls [Ch (CHR ''/'')])), re_opt (Str ''/'')]"

text \<open>
  The owner and the name of the repository, the two groups of the match of the pattern
  at the start of the URL without its trailing slashes; \<open>None\<close> when there is no match.
\<close>

definition parse_repo_url :: "string \<Rightarrow> (string \<times> string) option" where
  "parse_repo_url repo_url =
     (case re_match repo_pattern (rstrip_slash repo_url) of
        None \<Rightarrow> None
      | Some repo_match \<Rightarrow> Some (match_group repo_match 1, match_group repo_match 2))"

text \<open>
  The files in the order in which their tasks complete (\<open>as_completed\<close>), and the chunk
  records gathered from them; a file whose task raised gives none.
\<close>

definition as_completed :: "ingester \<Rightarrow> file_info list \<Rightarrow> file_info list" where
  "as_completed self files = sort_key (\<lambda>file_info. completes_at self (fi_path file_info)) files"

definition process_files ::
    "ingester \<Rightarrow> file_info list \<Rightarrow> string \<Rightarrow> string \<Rightarrow> string \<Rightarrow> chunk_metadata list" where
  "process_files self files repo_owner' repo_name' branch' =
     concat (map (\<lambda>file_info.
                    case process_file self file_info repo_owner' repo_name' branch' of
                      Inl e \<Rightarrow> []
                    | Inr chunk_metadata \<Rightarrow> chunk_metadata)
                 (as_completed self files))"

text \<open>The dictionary returned on success.\<close>

record summary =
  total_time :: real
  files_processed :: nat
  chunks_generated :: nat
  images_found :: nat
  files_with_images :: nat
  avg_quality_score :: real

text \<open>
  What \<open>ingest_repository\<close> returns: \<open>{'success': False, 'message': ...}\<close> or the
  summary with \<open>'success': True\<close>.
\<close>

datatype ingestion_result = NoContent string | Completed summary

fun success :: "ingestion_result \<Rightarrow> bool" where
  "success (NoContent message) = False"
| "success (Completed s) = True"

text \<open>
  \<open>ingest_repository\<close>, with what the run did to the embedding model and to the
  collection. The clock is read ten times on a complete run: first at the start, last
  for the total time.
\<close>

definition ingest_repository ::
    "ingester \<Rightarrow> string \<Rightarrow> string \<Rightarrow> int \<Rightarrow> (error + ingestion_result) \<times> effects" where
  "ingest_repository self repo_url branch' max_workers =
     (case parse_repo_url repo_url of
        None \<Rightarrow> (Inl (ValueError (''Invalid GitHub repository URL: '' @ repo_url)), no_effects)
      | Some (repo_owner', repo_name') \<Rightarrow>
          (case fetch_repository_tree self repo_owner' repo_name' branch' of
                Inl e \<Rightarrow> (Inl e, no_effects)
              | Inr files \<Rightarrow>
                  if max_workers \<le> 0
                  then (Inl (ValueError ''max_workers must be greater than 0''), no_effects)
                  else
                    (let all_chunk_metadata =
                           process_files self files repo_owner' repo_name' branch'
                     in if all_chunk_metadata = []
                        then (Inr (NoContent ''No processable content found''), no_effects)
                        else
                          (case generate_embeddings_batch self
                                  (map document all_chunk_metadata) 64 no_effects of
                             (Inl e, eff) \<Rightarrow> (Inl e, eff)
                           | (Inr embeddings, eff) \<Rightarrow>
                               (case store_chunks_batch self all_chunk_metadata embeddings 100 eff of
                                  (Inl e, eff') \<Rightarrow> (Inl e, eff')
                                | (Inr u, eff') \<Rightarrow>
                                    (Inr (Completed
                                       \<lparr>total_time = clock self 9 - clock self 0,
                                        files_processed = length files,
                                        chunks_generated = length all_chunk_metadata,
                                        images_found = sum_list (map image_count all_chunk_metadata),
                                        files_with_images =
                                          length (filter has_images all_chunk_metadata),
                                        avg_quality_score =
                                          sum_list (map content_quality_score all_chunk_metadata)
                                          / real (length all_chunk_metadata)\<rparr>),
                                     eff'))))))"

section \<open>What the claims are stated with\<close>

text \<open>The records of a file, none when its processing raised.\<close>

definition records_of :: "error + chunk_metadata list \<Rightarrow> chunk_metadata list" where
  "records_of result = (case result of Inl e \<Rightarrow> [] | Inr records \<Rightarrow> records)"

text \<open>The links of a file, none when their extraction raised.\<close>

definition links_of ::
    "error + string list \<times> string list \<times> string list \<Rightarrow> string list \<times> string list \<times> string list" where
  "links_of result = (case result of Inl e \<Rightarrow> ([], [], []) | Inr links \<Rightarrow> links)"

text \<open>The positions of the chunks that are long enough for a record.\<close>

definition kept_positions :: "string list \<Rightarrow> nat list" where
  "kept_positions chunks =
     map fst (filter (\<lambda>(i, chunk). 30 \<le> length (strip chunk)) (enumerate 0 chunks))"


text \<open>The run ended with the success outcome.\<close>

fun succeeded :: "error + ingestion_result \<Rightarrow> bool" where
  "succeeded (Inr (Completed s)) = True"
| "succeeded other = False"

text \<open>The number of chunks a successful run reports; 0 for any other outcome.\<close>

fun generated :: "error + ingestion_result \<Rightarrow> nat" where
  "generated (Inr (Completed s)) = chunks_generated s"
| "generated other = 0"


section \<open>A small service\<close>

text \<open>
  A service for the concrete runs below. The repository \<open>o/r\<close> has no branch \<open>main\<close>.
  Its branch \<open>master\<close> holds three files: a text of 40 characters, a note of 10
  characters and a page of two lines, the first of them short. Its branch \<open>docs\<close> holds
  a guide of two long lines, and its branch \<open>draft\<close> a page with an image whose
  address \<open>urljoin\<close> refuses. The repository \<open>o/s\<close> has the branch \<open>main\<close>, with the note
  and the text only. Every other request is answered 404.
\<close>

definition text_40 :: string where
  "text_40 = ''aaaaaaaaa aaaaaaaaa aaaaaaaaa aaaaaaaaaa''"

definition page :: string where
  "page = ''# Title'' @ [CHR 0x0A] @ ''See https://x.org/a.webp and the notes in this page.''"

definition guide :: string where
  "guide = ''The first line of this guide is a long line'' @ [CHR 0x0A]
           @ ''and its second line is about as long as it''"

definition broken :: string where
  "broken = ''![a](//[x) is an image whose address cannot be resolved at all''"

definition answer :: "nat \<Rightarrow> tree_item list \<Rightarrow> string \<Rightarrow> error + response" where
  "answer code tree body =
     Inr \<lparr>status_code = code, json_tree = tree, content_utf8 = Some body, content_latin1 = body\<rparr>"

definition blob :: "string \<Rightarrow> nat \<Rightarrow> tree_item" where
  "blob path n = \<lparr>item_type = ''blob'', item_path = path, item_sha = ''0'',
                  item_size = Some (int n), item_url = ''u''\<rparr>"

definition small_service :: "string \<Rightarrow> error + response" where
  "small_service url =
     (if url = ''https://api.github.com/repos/o/r'' then answer 200 [] []
      else if url = ''https://api.github.com/repos/o/r/git/trees/master?recursive=1''
      then answer 200 [blob ''text.txt'' 40, blob ''note.txt'' 10, blob ''page.md'' 60] []
      else if url = ''https://api.github.com/repos/o/r/git/trees/docs?recursive=1''
      then answer 200 [blob ''guide.txt'' 86] []
      else if url = ''https://raw.githubusercontent.com/o/r/master/text.txt''
      then answer 200 [] text_40
      else if url = ''https://raw.githubusercontent.com/o/r/master/note.txt''
      then answer 200 [] ''0123456789''
      else if url = ''https://raw.githubusercontent.com/o/r/master/page.md''
      then answer 200 [] page
      else if url = ''https://raw.githubusercontent.com/o/r/docs/guide.txt''
      then answer 200 [] guide
      else if url = ''https://api.github.com/repos/o/r/git/trees/draft?recursive=1''
      then answer 200 [blob ''broken.md'' 62] []
      else if url = ''https://raw.githubusercontent.com/o/r/draft/broken.md''
      then answer 200 [] broken
      else if url = ''https://api.github.com/repos/o/s'' then answer 200 [] []
      else if url = ''https://api.github.com/repos/o/s/git/trees/main?recursive=1''
      then answer 200 [blob ''note.txt'' 10, blob ''text.txt'' 40] []
      else if url = ''https://raw.githubusercontent.com/o/s/main/text.txt''
      then answer 200 [] text_40
      else if url = ''https://raw.githubusercontent.com/o/s/main/note.txt''
      then answer 200 [] ''0123456789''
      else answer 404 [] [])"

text \<open>
  An ingester on that service. Its chunker cuts a text at its line ends; its
  \<open>urljoin\<close> appends the reference to the base, which is right for a base that ends in a
  slash and a reference that is a plain relative path, and raises on a reference with
  an opening square bracket, as the library does on \<open>//[x\<close>.
\<close>

definition small_ingester :: ingester where
  "small_ingester =
     \<lparr>model_name = ''BAAI/bge-base-en-v1.5'',
      urljoin = (\<lambda>base url. if CHR ''['' \<in> set url then Inl (ValueError ''Invalid IPv6 URL'')
                             else Inr (base @ url)),
      set_iter = remdups_order,
      http_get = small_service,
      chunker = (\<lambda>language content. Inr (split_on (CHR 0x0A) content)),
      uuid4 = (\<lambda>path i. ''00000000-0000-4000-8000-000000000000''),
      now_isoformat = (\<lambda>path i. ''2025-01-01T00:00:00.000000''),
      model_encode = (\<lambda>batch. Inr (map (\<lambda>d. [1, 0]) batch)),
      collection_insert = (\<lambda>data. Inr ()),
      collection_flush = (\<lambda>n. Inr ()),
      clock = (\<lambda>n. real n),
      completes_at = (\<lambda>path. 0)\<rparr>"

text \<open>The files of the service, as the tree listing describes them.\<close>

definition text_file :: file_info where
  "text_file = hd (tree_files ''o'' ''r'' ''master'' [blob ''text.txt'' 40])"

definition note_file :: file_info where
  "note_file = hd (tree_files ''o'' ''r'' ''master'' [blob ''note.txt'' 10])"

definition page_file :: file_info where
  "page_file = hd (tree_files ''o'' ''r'' ''master'' [blob ''page.md'' 60])"

definition guide_file :: file_info where
  "guide_file = hd (tree_files ''o'' ''r'' ''docs'' [blob ''guide.txt'' 86])"

definition broken_file :: file_info where
  "broken_file = hd (tree_files ''o'' ''r'' ''draft'' [blob ''broken.md'' 62])"

text \<open>
  The record of the long line of the page, as \<open>process_file\<close> builds it, and the same
  record with an identifier of 101 characters.
\<close>

definition page_record :: chunk_metadata where
  "page_record =
     make_chunk_metadata small_ingester page_file ''o'' ''r'' ''master''
       [''https://x.org/a.webp''] [] [''https://x.org/a.webp'']
       (analyze_content small_ingester page page_file) 1
       ''See https://x.org/a.webp and the notes in this page.''"


text \<open>Two texts with the same links, in another order and another number of times.\<close>

definition links_once :: string where
  "links_once = ''![a](i.png) [d](f.zip) https://a.io/x https://b.io/y''"

definition links_twice :: string where
  "links_twice =
     ''https://b.io/y [e](f.zip) https://a.io/x ![c](i.png) https://b.io/y ![a](i.png)''"

section \<open>Sets of strings: what every order gives\<close>

lemma distinct_list_set: "distinct (list_set h xs)"
  by transfer simp

lemma set_list_set: "set (list_set h xs) = set xs"
  by transfer simp

lemma list_set_Nil: "list_set h [] = []"
  using set_list_set [of h "[]"] by simp

lemma list_set_remdups_order: "list_set remdups_order xs = remdups xs"
  by transfer simp

section \<open>Quality scores\<close>

lemma count_true_le: "count_true bs \<le> length bs"
  by (simp add: count_true_def)

text \<open>
  Claim C5. For every text, every dictionary of code elements and every documentation
  flag, each of the three scores of \<open>_calculate_quality_scores\<close> lies between 0 and 1
  inclusive. The content quality is the number of indicators that hold, out of six,
  divided by 6; the semantic density is the number of distinct words of three
  characters or more over the number of words, doubled and cut at 1, and 0 when there is
  no word; the information value is the sum of the five counts, cut at 10, 5, 5, 20 and
  10, divided by 50.
\<close>

theorem quality_scores_in_unit_interval:
  fixes content :: string and elements :: code_elements and has_documentation :: bool
  defines "q \<equiv> calculate_quality_scores content elements has_documentation"
  defines "unique_words \<equiv> length (remdups (findall long_word (lower content) no_flags))"
  defines "total_words \<equiv> length (findall any_word content no_flags)"
  shows "0 \<le> qs_content_quality_score q \<and> qs_content_quality_score q \<le> 1
       \<and> 0 \<le> qs_semantic_density_score q \<and> qs_semantic_density_score q \<le> 1
       \<and> 0 \<le> qs_information_value_score q \<and> qs_information_value_score q \<le> 1
       \<and> qs_content_quality_score q =
           real (count_true [100 < length content,
                             py_in [CHR 0x0A, CHR 0x0A] content,
                             py_in ''#'' content \<or> py_in ''##'' content \<or> py_in ''###'' content,
                             has_documentation,
                             el_functions elements \<noteq> [],
                             2 < length (findall sentence_end content no_flags)]) / 6
       \<and> qs_semantic_density_score q =
           (if total_words = 0 then 0 else min (2 * (real unique_words / real total_words)) 1)
       \<and> qs_information_value_score q =
           real (min (length (el_functions elements)) 10
                 + min (length (el_classes elements)) 5
                 + min (length (findall url_ref content no_flags)) 5
                 + min (length (findall camel_case content no_flags)) 20
                 + min (count_sub content fence) 10) / 50"
proof -
  let ?ind = "[100 < length content,
               py_in [CHR 0x0A, CHR 0x0A] content,
               py_in ''#'' content \<or> py_in ''##'' content \<or> py_in ''###'' content,
               has_documentation,
               el_functions elements \<noteq> [],
               2 < length (findall sentence_end content no_flags)]"
  let ?info = "min (length (el_functions elements)) 10
                 + min (length (el_classes elements)) 5
                 + min (length (findall url_ref content no_flags)) 5
                 + min (length (findall camel_case content no_flags)) 20
                 + min (count_sub content fence) 10"
  have cq: "qs_content_quality_score q = real (count_true ?ind) / 6"
    by (simp add: q_def calculate_quality_scores_def Let_def)
  have sd: "qs_semantic_density_score q =
              (if total_words = 0 then 0 else min (2 * (real unique_words / real total_words)) 1)"
    by (simp add: q_def calculate_quality_scores_def Let_def unique_words_def total_words_def
        mult.commute)
  have iv: "qs_information_value_score q = real ?info / 50"
    by (simp add: q_def calculate_quality_scores_def Let_def)
  have "count_true ?ind \<le> 6"
    using count_true_le [of ?ind] by simp
  then have cq_range: "0 \<le> qs_content_quality_score q \<and> qs_content_quality_score q \<le> 1"
    by (simp add: cq)
  have sd_range: "0 \<le> qs_semantic_density_score q \<and> qs_semantic_density_score q \<le> 1"
    by (simp add: sd)
  have "?info \<le> 50"
    by simp
  then have iv_range: "0 \<le> qs_information_value_score q \<and> qs_information_value_score q \<le> 1"
    by (simp add: iv)
  show ?thesis
    using cq sd iv cq_range sd_range iv_range by blast
qed

section \<open>Code elements\<close>

text \<open>
  Claim C8. For every language and every text, each of the three lists of
  \<open>_extract_code_elements\<close> has no duplicate and at most 20 entries; for a language
  other than \<open>python\<close>, \<open>javascript\<close> and \<open>java\<close> the three lists are empty.
\<close>

theorem code_elements_deduplicated_and_capped:
  fixes self :: ingester and content language :: string
  defines "e \<equiv> extract_code_elements self content language"
  shows "distinct (el_functions e) \<and> length (el_functions e) \<le> 20
       \<and> distinct (el_classes e) \<and> length (el_classes e) \<le> 20
       \<and> distinct (el_imports e) \<and> length (el_imports e) \<le> 20
       \<and> (language \<noteq> ''python'' \<and> language \<noteq> ''javascript'' \<and> language \<noteq> ''java''
            \<longrightarrow> el_functions e = [] \<and> el_classes e = [] \<and> el_imports e = [])"
  by (simp add: e_def extract_code_elements_def Let_def distinct_list_set list_set_Nil)

theorem code_elements_deduplicated_and_capped_witness:
  "''rust'' \<noteq> ''python'' \<and> ''rust'' \<noteq> ''javascript'' \<and> ''rust'' \<noteq> ''java''
   \<and> el_functions (extract_code_elements small_ingester ''def f(): pass'' ''rust'') = []
   \<and> el_classes (extract_code_elements small_ingester ''def f(): pass'' ''rust'') = []
   \<and> el_imports (extract_code_elements small_ingester ''def f(): pass'' ''rust'') = []
   \<and> length (el_functions (extract_code_elements small_ingester ''def f(): pass'' ''python'')) \<le> 20"
  using code_elements_deduplicated_and_capped [of small_ingester "''def f(): pass''" "''rust''"]
        code_elements_deduplicated_and_capped [of small_ingester "''def f(): pass''" "''python''"]
  by simp

section \<open>Extracted links\<close>

text \<open>
  Claim C6. The claim is that no URL that is an image or an attachment by its extension
  is among the external links. The filter of the external links knows seven extensions
  only; a URL that ends in \<open>.webp\<close> is returned as an image and as an external link,
  and one that ends in \<open>.zip\<close> as an attachment and as an external link.
\<close>

theorem unfiltered_extensions_in_external_links:
  "extract_images_and_links small_ingester ''https://x.org/a.webp'' []
     = Inr ([''https://x.org/a.webp''], [], [''https://x.org/a.webp''])
   \<and> extract_images_and_links small_ingester ''[f](https://x.org/a.zip)'' []
     = Inr ([], [''https://x.org/a.zip''], [''https://x.org/a.zip''])"
  by code_simp

section \<open>The records of a file\<close>

lemma length_strip_le: "length (strip s) \<le> length s"
proof -
  have "length (dropWhile is_space (rev (dropWhile is_space s))) \<le> length (rev (dropWhile is_space s))"
    by (rule length_dropWhile_le)
  also have "\<dots> \<le> length s"
    by (simp add: length_dropWhile_le)
  finally show ?thesis
    by (simp add: strip_def)
qed

lemma process_file_skipped:
  assumes "fetch_file_content self file_info = Some content"
      and "length (strip content) < 50"
  shows "process_file self file_info repo_owner' repo_name' branch' = Inr []"
  using assms by (simp add: process_file_def)

lemma long_content_not_empty: "50 \<le> length (strip content) \<Longrightarrow> content \<noteq> []"
  by (auto simp: strip_def)

lemma process_file_link_error:
  assumes "fetch_file_content self file_info = Some content"
      and "50 \<le> length (strip content)"
      and "extract_images_and_links self content (base_url_of repo_owner' repo_name' branch') = Inl e"
  shows "process_file self file_info repo_owner' repo_name' branch' = Inl e"
  using assms long_content_not_empty [OF assms(2)] by (simp add: process_file_def Let_def)

lemma process_file_passed:
  assumes "fetch_file_content self file_info = Some content"
      and "50 \<le> length (strip content)"
      and "extract_images_and_links self content (base_url_of repo_owner' repo_name' branch') = Inr links"
      and "semantic_chunk_content self content file_info = Inr chunks"
  shows "process_file self file_info repo_owner' repo_name' branch' =
           Inr (concat (map (\<lambda>(i, chunk).
                  if length (strip chunk) < 30 then []
                  else [make_chunk_metadata self file_info repo_owner' repo_name' branch'
                          (fst links) (fst (snd links)) (snd (snd links))
                          (analyze_content self content file_info) i chunk])
                (enumerate 0 chunks)))"
  using assms long_content_not_empty [OF assms(2)] by (simp add: process_file_def Let_def)

lemma chunk_index_make [simp]:
  "chunk_index (make_chunk_metadata self file_info ro rn b imgs atts exts an i chunk) = i"
  by (simp add: make_chunk_metadata_def Let_def)

lemma document_make [simp]:
  "document (make_chunk_metadata self file_info ro rn b imgs atts exts an i chunk) = chunk"
  by (simp add: make_chunk_metadata_def Let_def)

lemma map_chunk_index_built:
  assumes "\<And>i chunk. chunk_index (mk i chunk) = i"
  shows "map chunk_index (concat (map (\<lambda>(i, chunk). if length (strip chunk) < 30 then [] else [mk i chunk])
                                      (enumerate n chunks)))
         = map fst (filter (\<lambda>(i, chunk). 30 \<le> length (strip chunk)) (enumerate n chunks))"
  using assms by (induction chunks arbitrary: n) (auto simp: not_less)

lemma map_document_built:
  assumes "\<And>i chunk. document (mk i chunk) = chunk"
  shows "map document (concat (map (\<lambda>(i, chunk). if length (strip chunk) < 30 then [] else [mk i chunk])
                                      (enumerate n chunks)))
         = filter (\<lambda>chunk. 30 \<le> length (strip chunk)) chunks"
  using assms by (induction chunks arbitrary: n) (auto simp: not_less)

lemma indices_of_passed:
  assumes "fetch_file_content self file_info = Some content"
      and "50 \<le> length (strip content)"
      and "extract_images_and_links self content (base_url_of repo_owner' repo_name' branch') = Inr links"
      and "semantic_chunk_content self content file_info = Inr chunks"
  shows "map chunk_index (records_of (process_file self file_info repo_owner' repo_name' branch'))
         = kept_positions chunks"
  by (simp add: process_file_passed [OF assms] records_of_def kept_positions_def
      map_chunk_index_built)

lemma documents_of_passed:
  assumes "fetch_file_content self file_info = Some content"
      and "50 \<le> length (strip content)"
      and "extract_images_and_links self content (base_url_of repo_owner' repo_name' branch') = Inr links"
      and "semantic_chunk_content self content file_info = Inr chunks"
  shows "map document (records_of (process_file self file_info repo_owner' repo_name' branch'))
         = filter (\<lambda>chunk. 30 \<le> length (strip chunk)) chunks"
  by (simp add: process_file_passed [OF assms] records_of_def map_document_built)

lemma sorted_kept_from:
  "sorted_wrt (<) (map fst (filter P (enumerate n chunks)))"
proof -
  have "sorted_wrt (\<lambda>x y. fst x < fst y) (enumerate n chunks)"
    using sorted_wrt_map [of "(<)" fst "enumerate n chunks"] by simp
  then have "sorted_wrt (\<lambda>x y. fst x < fst y) (filter P (enumerate n chunks))"
    by (rule sorted_wrt_filter)
  then show ?thesis
    by (simp add: sorted_wrt_map)
qed

lemma sorted_kept_positions: "sorted_wrt (<) (kept_positions chunks)"
  by (simp add: kept_positions_def sorted_kept_from)

lemma kept_positions_bound: "set (kept_positions chunks) \<subseteq> {..<length chunks}"
  by (auto simp: kept_positions_def in_set_enumerate_eq)

lemma kept_positions_all:
  assumes "list_all (\<lambda>chunk. 30 \<le> length (strip chunk)) chunks"
  shows "kept_positions chunks = [0..<length chunks]"
proof -
  have "filter (\<lambda>(i, chunk). 30 \<le> length (strip chunk)) (enumerate 0 chunks) = enumerate 0 chunks"
    using assms by (auto simp: filter_id_conv list_all_iff in_set_enumerate_eq)
  then show ?thesis
    by (simp add: kept_positions_def)
qed

lemma sorted_indices:
  "sorted_wrt (<) (map chunk_index (records_of (process_file self file_info repo_owner' repo_name' branch')))"
proof (cases "fetch_file_content self file_info")
  case None
  then show ?thesis by (simp add: process_file_def records_of_def)
next
  case (Some content)
  show ?thesis
  proof (cases "length (strip content) < 50")
    case True
    then show ?thesis
      by (simp add: process_file_skipped [OF Some] records_of_def)
  next
    case False
    then have long: "50 \<le> length (strip content)" by simp
    show ?thesis
    proof (cases "extract_images_and_links self content (base_url_of repo_owner' repo_name' branch')")
      case (Inl e)
      show ?thesis
        by (simp add: process_file_link_error [OF Some long Inl] records_of_def)
    next
      case links: (Inr links)
      show ?thesis
      proof (cases "semantic_chunk_content self content file_info")
        case (Inl e)
        with Some links long_content_not_empty [OF long] long show ?thesis
          by (simp add: process_file_def records_of_def Let_def)
      next
        case (Inr chunks)
        show ?thesis
          by (simp add: indices_of_passed [OF Some long links Inr] sorted_kept_positions)
      qed
    qed
  qed
qed

lemma record_of_file:
  assumes "fetch_file_content self file_info = Some content"
      and "r \<in> set (records_of (process_file self file_info repo_owner' repo_name' branch'))"
  shows "\<exists>links i chunk.
           extract_images_and_links self content (base_url_of repo_owner' repo_name' branch') = Inr links
           \<and> r = make_chunk_metadata self file_info repo_owner' repo_name' branch'
                   (fst links) (fst (snd links)) (snd (snd links))
                   (analyze_content self content file_info) i chunk"
  using assms
  by (auto simp: process_file_def records_of_def Let_def split: if_splits sum.splits) blast

lemma image_fields_make:
  "image_links (make_chunk_metadata self file_info ro rn b imgs atts exts an i chunk)
     = json_dumps (chunk_images_of imgs chunk)
   \<and> image_count (make_chunk_metadata self file_info ro rn b imgs atts exts an i chunk)
     = length (chunk_images_of imgs chunk)
   \<and> has_images (make_chunk_metadata self file_info ro rn b imgs atts exts an i chunk)
     = (0 < length (chunk_images_of imgs chunk))
   \<and> has_links (make_chunk_metadata self file_info ro rn b imgs atts exts an i chunk)
     = (exts \<noteq> [])"
  by (simp add: make_chunk_metadata_def Let_def)

text \<open>The files of the small service.\<close>

lemma fetch_guide: "fetch_file_content small_ingester guide_file = Some guide"
  by code_simp

lemma fetch_page: "fetch_file_content small_ingester page_file = Some page"
  by code_simp

lemma fetch_text: "fetch_file_content small_ingester text_file = Some text_40"
  by code_simp

lemma fetch_note: "fetch_file_content small_ingester note_file = Some ''0123456789''"
  by code_simp

lemma chunks_guide:
  "semantic_chunk_content small_ingester guide guide_file
     = Inr [''The first line of this guide is a long line'',
            ''and its second line is about as long as it'']"
  by code_simp

lemma chunks_page:
  "semantic_chunk_content small_ingester page page_file
     = Inr [''# Title'', ''See https://x.org/a.webp and the notes in this page.'']"
  by code_simp

lemma chunks_text: "semantic_chunk_content small_ingester text_40 text_file = Inr [text_40]"
  by code_simp

lemma links_guide:
  "extract_images_and_links small_ingester guide (base_url_of ''o'' ''r'' ''docs'') = Inr ([], [], [])"
  by code_simp

lemma links_page:
  "extract_images_and_links small_ingester page (base_url_of ''o'' ''r'' ''master'')
     = Inr ([''https://x.org/a.webp''], [], [''https://x.org/a.webp''])"
  by code_simp

lemma strip_guide: "length (strip guide) = 86"
  by code_simp

lemma strip_page: "length (strip page) = 60"
  by code_simp

lemma strip_text: "length (strip text_40) = 40"
  by code_simp

lemma strip_note: "length (strip ''0123456789'') = 10"
  by code_simp

lemma kept_guide:
  "list_all (\<lambda>chunk. 30 \<le> length (strip chunk))
     [''The first line of this guide is a long line'',
      ''and its second line is about as long as it'']"
  by code_simp

lemma kept_page:
  "kept_positions [''# Title'', ''See https://x.org/a.webp and the notes in this page.''] = [1]"
  by code_simp

lemma filter_page:
  "filter (\<lambda>chunk. 30 \<le> length (strip chunk))
     [''# Title'', ''See https://x.org/a.webp and the notes in this page.'']
   = [''See https://x.org/a.webp and the notes in this page.'']"
  by code_simp

lemma chunk_images_page:
  "chunk_images_of [''https://x.org/a.webp'']
     ''See https://x.org/a.webp and the notes in this page.'' = [''https://x.org/a.webp'']"
  by code_simp

lemma records_page:
  "records_of (process_file small_ingester page_file ''o'' ''r'' ''master'') = [page_record]"
proof -
  have "50 \<le> length (strip page)"
    by (simp add: strip_page)
  from process_file_passed [OF fetch_page this links_page chunks_page]
  have "process_file small_ingester page_file ''o'' ''r'' ''master''
          = Inr (concat (map (\<lambda>(i, chunk).
                  if length (strip chunk) < 30 then []
                  else [make_chunk_metadata small_ingester page_file ''o'' ''r'' ''master''
                          [''https://x.org/a.webp''] [] [''https://x.org/a.webp'']
                          (analyze_content small_ingester page page_file) i chunk])
                (enumerate 0 [''# Title'', ''See https://x.org/a.webp and the notes in this page.''])))"
    by simp
  moreover have "length (strip ''# Title'') < 30"
    by code_simp
  moreover have "\<not> length (strip ''See https://x.org/a.webp and the notes in this page.'') < 30"
    by code_simp
  ultimately show ?thesis
    by (simp add: records_of_def page_record_def)
qed

lemma fetch_broken: "fetch_file_content small_ingester broken_file = Some broken"
  by code_simp

lemma strip_broken: "length (strip broken) = 62"
  by code_simp

lemma links_broken:
  "extract_images_and_links small_ingester broken (base_url_of ''o'' ''r'' ''draft'')
     = Inl (ValueError ''Invalid IPv6 URL'')"
  by code_simp

text \<open>
  Claim C2, amended. The \<open>chunk_index\<close> values of the records of a file are strictly
  increasing, so no two are equal. For a file that is processed (its content has at
  least 50 characters once stripped, its links are extracted and the chunker returns)
  they are the positions, in the output of the chunker, of the chunks with at least 30
  characters once stripped, each below the number of chunks; they are \<open>0..k-1\<close> for
  \<open>k\<close> records when no chunk is passed over. A chunk that is passed over leaves a gap.
  When the extraction of the links raises, the file has no record.
\<close>

theorem chunk_index_positions:
  fixes self :: ingester and file_info :: file_info
    and repo_owner' repo_name' branch' content :: string and chunks :: "string list"
  defines "records \<equiv> records_of (process_file self file_info repo_owner' repo_name' branch')"
  shows "sorted_wrt (<) (map chunk_index records)
       \<and> distinct (map chunk_index records)
       \<and> (fetch_file_content self file_info = Some content
            \<and> 50 \<le> length (strip content)
            \<and> extract_images_and_links self content (base_url_of repo_owner' repo_name' branch')
                = Inr links
            \<and> semantic_chunk_content self content file_info = Inr chunks
          \<longrightarrow> map chunk_index records = kept_positions chunks
              \<and> set (map chunk_index records) \<subseteq> {..<length chunks}
              \<and> (list_all (\<lambda>chunk. 30 \<le> length (strip chunk)) chunks
                   \<longrightarrow> map chunk_index records = [0..<length records]))
       \<and> (fetch_file_content self file_info = Some content
            \<and> 50 \<le> length (strip content)
            \<and> extract_images_and_links self content (base_url_of repo_owner' repo_name' branch')
                = Inl e
          \<longrightarrow> process_file self file_info repo_owner' repo_name' branch' = Inl e \<and> records = [])"
proof -
  have s: "sorted_wrt (<) (map chunk_index records)"
    unfolding records_def by (rule sorted_indices)
  then have d: "distinct (map chunk_index records)"
    using strict_sorted_iff by blast
  have c: "map chunk_index records = kept_positions chunks
              \<and> set (map chunk_index records) \<subseteq> {..<length chunks}
              \<and> (list_all (\<lambda>chunk. 30 \<le> length (strip chunk)) chunks
                   \<longrightarrow> map chunk_index records = [0..<length records])"
    if h: "fetch_file_content self file_info = Some content"
          "50 \<le> length (strip content)"
          "extract_images_and_links self content (base_url_of repo_owner' repo_name' branch')
             = Inr links"
          "semantic_chunk_content self content file_info = Inr chunks"
  proof -
    have k: "map chunk_index records = kept_positions chunks"
      unfolding records_def by (rule indices_of_passed [OF h])
    have "map chunk_index records = [0..<length records]"
      if "list_all (\<lambda>chunk. 30 \<le> length (strip chunk)) chunks"
    proof -
      have e: "map chunk_index records = [0..<length chunks]"
        using k kept_positions_all [OF that] by simp
      then have "length records = length chunks"
        by (metis length_map length_upt minus_nat.diff_0)
      with e show ?thesis by simp
    qed
    with k kept_positions_bound [of chunks] show ?thesis
      by simp
  qed
  have r: "process_file self file_info repo_owner' repo_name' branch' = Inl e \<and> records = []"
    if h: "fetch_file_content self file_info = Some content"
          "50 \<le> length (strip content)"
          "extract_images_and_links self content (base_url_of repo_owner' repo_name' branch')
             = Inl e"
    unfolding records_def by (simp add: process_file_link_error [OF h] records_of_def)
  from s d c r show ?thesis
    by blast
qed

theorem chunk_index_positions_witness:
  "fetch_file_content small_ingester guide_file = Some guide
   \<and> 50 \<le> length (strip guide)
   \<and> extract_images_and_links small_ingester guide (base_url_of ''o'' ''r'' ''docs'')
       = Inr ([], [], [])
   \<and> semantic_chunk_content small_ingester guide guide_file
       = Inr [''The first line of this guide is a long line'',
              ''and its second line is about as long as it'']
   \<and> list_all (\<lambda>chunk. 30 \<le> length (strip chunk))
        [''The first line of this guide is a long line'',
         ''and its second line is about as long as it'']
   \<and> map chunk_index (records_of (process_file small_ingester guide_file ''o'' ''r'' ''docs''))
       = [0, 1]
   \<and> fetch_file_content small_ingester broken_file = Some broken
   \<and> 50 \<le> length (strip broken)
   \<and> extract_images_and_links small_ingester broken (base_url_of ''o'' ''r'' ''draft'')
       = Inl (ValueError ''Invalid IPv6 URL'')
   \<and> process_file small_ingester broken_file ''o'' ''r'' ''draft''
       = Inl (ValueError ''Invalid IPv6 URL'')"
proof -
  have l: "50 \<le> length (strip guide)"
    by (simp add: strip_guide)
  have b: "50 \<le> length (strip broken)"
    by (simp add: strip_broken)
  have "map chunk_index (records_of (process_file small_ingester guide_file ''o'' ''r'' ''docs''))
          = kept_positions [''The first line of this guide is a long line'',
                            ''and its second line is about as long as it'']"
    using chunk_index_positions [of small_ingester guide_file "''o''" "''r''" "''docs''" guide
            "([], [], [])"
            "[''The first line of this guide is a long line'',
              ''and its second line is about as long as it'']"]
          fetch_guide l links_guide chunks_guide
    by blast
  also have "\<dots> = [0, 1]"
    using kept_positions_all [OF kept_guide] by (simp add: upt_rec)
  finally have g: "map chunk_index (records_of (process_file small_ingester guide_file ''o'' ''r'' ''docs''))
          = [0, 1]" .
  have "process_file small_ingester broken_file ''o'' ''r'' ''draft''
          = Inl (ValueError ''Invalid IPv6 URL'')"
    using chunk_index_positions [of small_ingester broken_file "''o''" "''r''" "''draft''" broken
            _ _ "ValueError ''Invalid IPv6 URL''"]
          fetch_broken b links_broken
    by blast
  with g show ?thesis
    using fetch_guide l links_guide chunks_guide kept_guide fetch_broken b links_broken by simp
qed

text \<open>
  Claim C2 as stated fails: the page has a short first line and a long second line, and
  its only record has \<open>chunk_index\<close> 1, where the claim asks for 0.
\<close>

theorem chunk_index_gap_counterexample:
  "map chunk_index (records_of (process_file small_ingester page_file ''o'' ''r'' ''master'')) = [1]"
proof -
  have "50 \<le> length (strip page)"
    by (simp add: strip_page)
  from indices_of_passed [OF fetch_page this links_page chunks_page] show ?thesis
    by (simp add: kept_page)
qed

text \<open>
  Claim C3, amended. A file whose content has fewer than 50 characters once stripped
  gives no record, so an empty file and a file of 10 characters give none. For a file
  with at least 50 such characters whose links are extracted and whose chunks the
  chunker returns, the documents of its records are the chunks with at least 30
  characters once stripped, in their order: a chunk is passed over exactly when it has
  fewer than 30. When the extraction of the links raises, so does the processing of the
  file.
\<close>

theorem process_file_thresholds:
  assumes "fetch_file_content self file_info = Some content"
  shows "(length (strip content) < 50
            \<longrightarrow> process_file self file_info repo_owner' repo_name' branch' = Inr [])
       \<and> (length content \<le> 10
            \<longrightarrow> process_file self file_info repo_owner' repo_name' branch' = Inr [])
       \<and> (50 \<le> length (strip content)
            \<and> extract_images_and_links self content (base_url_of repo_owner' repo_name' branch')
                = Inr links
            \<and> semantic_chunk_content self content file_info = Inr chunks
            \<longrightarrow> map document (records_of (process_file self file_info repo_owner' repo_name' branch'))
                  = filter (\<lambda>chunk. 30 \<le> length (strip chunk)) chunks)
       \<and> (50 \<le> length (strip content)
            \<and> extract_images_and_links self content (base_url_of repo_owner' repo_name' branch')
                = Inl e
            \<longrightarrow> process_file self file_info repo_owner' repo_name' branch' = Inl e)"
proof -
  have a: "process_file self file_info repo_owner' repo_name' branch' = Inr []"
    if "length (strip content) < 50"
    using process_file_skipped [OF assms that] .
  have b: "process_file self file_info repo_owner' repo_name' branch' = Inr []"
    if "length content \<le> 10"
  proof -
    have "length (strip content) < 50"
      using that length_strip_le [of content] by simp
    then show ?thesis by (rule a)
  qed
  have c: "map document (records_of (process_file self file_info repo_owner' repo_name' branch'))
                  = filter (\<lambda>chunk. 30 \<le> length (strip chunk)) chunks"
    if "50 \<le> length (strip content)"
       "extract_images_and_links self content (base_url_of repo_owner' repo_name' branch')
          = Inr links"
       "semantic_chunk_content self content file_info = Inr chunks"
    using documents_of_passed [OF assms that] .
  have d: "process_file self file_info repo_owner' repo_name' branch' = Inl e"
    if "50 \<le> length (strip content)"
       "extract_images_and_links self content (base_url_of repo_owner' repo_name' branch')
          = Inl e"
    using process_file_link_error [OF assms that] .
  from a b c d show ?thesis
    by blast
qed

theorem process_file_thresholds_witness:
  "fetch_file_content small_ingester note_file = Some ''0123456789''
   \<and> length (strip ''0123456789'') < 50 \<and> length ''0123456789'' \<le> 10
   \<and> process_file small_ingester note_file ''o'' ''r'' ''master'' = Inr []
   \<and> fetch_file_content small_ingester page_file = Some page
   \<and> 50 \<le> length (strip page)
   \<and> extract_images_and_links small_ingester page (base_url_of ''o'' ''r'' ''master'')
       = Inr ([''https://x.org/a.webp''], [], [''https://x.org/a.webp''])
   \<and> semantic_chunk_content small_ingester page page_file
       = Inr [''# Title'', ''See https://x.org/a.webp and the notes in this page.'']
   \<and> map document (records_of (process_file small_ingester page_file ''o'' ''r'' ''master''))
       = [''See https://x.org/a.webp and the notes in this page.'']
   \<and> fetch_file_content small_ingester broken_file = Some broken
   \<and> 50 \<le> length (strip broken)
   \<and> extract_images_and_links small_ingester broken (base_url_of ''o'' ''r'' ''draft'')
       = Inl (ValueError ''Invalid IPv6 URL'')
   \<and> process_file small_ingester broken_file ''o'' ''r'' ''draft''
       = Inl (ValueError ''Invalid IPv6 URL'')"
proof -
  have n: "length (strip ''0123456789'') < 50" "length ''0123456789'' \<le> 10"
    by (simp_all add: strip_note)
  have p: "50 \<le> length (strip page)"
    by (simp add: strip_page)
  have b: "50 \<le> length (strip broken)"
    by (simp add: strip_broken)
  have "process_file small_ingester note_file ''o'' ''r'' ''master'' = Inr []"
    using process_file_thresholds [OF fetch_note, of "''o''" "''r''" "''master''"] n by blast
  moreover have "map document (records_of (process_file small_ingester page_file ''o'' ''r'' ''master''))
       = [''See https://x.org/a.webp and the notes in this page.'']"
    using process_file_thresholds [OF fetch_page, of "''o''" "''r''" "''master''"
            "([''https://x.org/a.webp''], [], [''https://x.org/a.webp''])"
            "[''# Title'', ''See https://x.org/a.webp and the notes in this page.'']"]
          p links_page chunks_page filter_page
    by simp
  moreover have "process_file small_ingester broken_file ''o'' ''r'' ''draft''
       = Inl (ValueError ''Invalid IPv6 URL'')"
    using process_file_thresholds [OF fetch_broken, of "''o''" "''r''" "''draft''" _ _
            "ValueError ''Invalid IPv6 URL''"]
          b links_broken
    by blast
  ultimately show ?thesis
    using fetch_note n fetch_page p links_page chunks_page fetch_broken b links_broken by simp
qed

text \<open>
  Claim C3 as stated fails: a file of 40 characters, which the chunker returns as one
  chunk of 40 characters, gives no record.
\<close>

theorem file_threshold_counterexample:
  "fetch_file_content small_ingester text_file = Some text_40
   \<and> length (strip text_40) = 40
   \<and> semantic_chunk_content small_ingester text_40 text_file = Inr [text_40]
   \<and> process_file small_ingester text_file ''o'' ''r'' ''master'' = Inr []"
proof -
  have "length (strip text_40) < 50"
    by (simp add: strip_text)
  from process_file_skipped [OF fetch_text this] show ?thesis
    by (simp add: fetch_text strip_text chunks_text)
qed

text \<open>
  Claim C10. In every record of a file, \<open>image_links\<close> is the JSON encoding of the
  images of the file that are relevant to the chunk, \<open>image_count\<close> is the number of
  these images, \<open>has_images\<close> holds exactly when \<open>image_count\<close> is positive, and
  \<open>has_links\<close> holds exactly when the external links of the file are not empty, so
  that it is the same in all records of the file.
\<close>

theorem image_fields_consistent:
  fixes self :: ingester and file_info :: file_info
    and repo_owner' repo_name' branch' content :: string
  defines "links \<equiv> links_of (extract_images_and_links self content
                                  (base_url_of repo_owner' repo_name' branch'))"
  assumes "fetch_file_content self file_info = Some content"
  shows "list_all (\<lambda>r. image_links r = json_dumps (chunk_images_of (fst links) (document r))
                      \<and> image_count r = length (chunk_images_of (fst links) (document r))
                      \<and> has_images r = (0 < image_count r)
                      \<and> has_links r = (snd (snd links) \<noteq> []))
           (records_of (process_file self file_info repo_owner' repo_name' branch'))"
proof -
  have "image_links r = json_dumps (chunk_images_of (fst links) (document r))
          \<and> image_count r = length (chunk_images_of (fst links) (document r))
          \<and> has_images r = (0 < image_count r)
          \<and> has_links r = (snd (snd links) \<noteq> [])"
    if "r \<in> set (records_of (process_file self file_info repo_owner' repo_name' branch'))" for r
  proof -
    from record_of_file [OF assms(2) that] obtain found i chunk where
      f: "extract_images_and_links self content (base_url_of repo_owner' repo_name' branch')
            = Inr found"
      and "r = make_chunk_metadata self file_info repo_owner' repo_name' branch'
             (fst found) (fst (snd found)) (snd (snd found))
             (analyze_content self content file_info) i chunk"
      by blast
    moreover from f have "links = found"
      by (simp add: links_def links_of_def)
    ultimately show ?thesis
      using image_fields_make by simp
  qed
  then show ?thesis
    by (simp add: list_all_iff)
qed

theorem image_fields_consistent_witness:
  "fetch_file_content small_ingester page_file = Some page
   \<and> map image_count (records_of (process_file small_ingester page_file ''o'' ''r'' ''master'')) = [1]
   \<and> map has_images (records_of (process_file small_ingester page_file ''o'' ''r'' ''master'')) = [True]
   \<and> map has_links (records_of (process_file small_ingester page_file ''o'' ''r'' ''master'')) = [True]"
proof -
  have d: "document page_record = ''See https://x.org/a.webp and the notes in this page.''"
    by (simp add: page_record_def)
  from image_fields_consistent [OF fetch_page, of "''o''" "''r''" "''master''"]
  have "image_count page_record = 1 \<and> has_images page_record \<and> has_links page_record"
    by (simp add: records_page links_page links_of_def d chunk_images_page)
  then show ?thesis
    by (simp add: records_page fetch_page)
qed

declare store_from.simps [simp del]

declare embed_from.simps [simp del]


lemma store_from_stop:
  assumes "batch_size = 0 \<or> length chunk_metadata_list \<le> i"
  shows "store_from self chunk_metadata_list embeddings batch_size i eff = (Inr (), eff)"
  using assms by (subst store_from.simps) simp

lemma store_from_step:
  assumes "\<not> (batch_size = 0 \<or> length chunk_metadata_list \<le> i)"
      and "data = insert_data (slice chunk_metadata_list i (min (i + batch_size) (length chunk_metadata_list)))
                    (slice embeddings i (min (i + batch_size) (length chunk_metadata_list)))"
  shows "store_from self chunk_metadata_list embeddings batch_size i eff =
           (case collection_insert self data of
              Inl e \<Rightarrow> (Inl e, eff)
            | Inr u \<Rightarrow>
                (case collection_flush self (flushes eff) of
                   Inl e \<Rightarrow> (Inl e, eff\<lparr>inserted := inserted eff @ [data]\<rparr>)
                 | Inr u' \<Rightarrow>
                     store_from self chunk_metadata_list embeddings batch_size (i + batch_size)
                       (eff\<lparr>inserted := inserted eff @ [data], flushes := Suc (flushes eff)\<rparr>)))"
  using assms by (subst store_from.simps) (simp add: Let_def split: sum.splits)








lemma small_insert: "collection_insert small_ingester data = Inr ()"
  by (simp add: small_ingester_def)

lemma small_flush: "collection_flush small_ingester n = Inr ()"
  by (simp add: small_ingester_def)

lemma small_encode: "model_encode small_ingester batch = Inr (map (\<lambda>d. [1, 0]) batch)"
  by (simp add: small_ingester_def)





lemma embed_from_stop:
  assumes "batch_size = 0 \<or> length chunks \<le> i"
  shows "embed_from self chunks batch_size i all_embeddings eff = (Inr all_embeddings, eff)"
  using assms by (subst embed_from.simps) simp

lemma embed_from_step:
  assumes "\<not> (batch_size = 0 \<or> length chunks \<le> i)"
  shows "embed_from self chunks batch_size i all_embeddings eff =
           (case model_encode self (slice chunks i (i + batch_size)) of
              Inl e \<Rightarrow> (Inl e, eff\<lparr>encoded := encoded eff @ [slice chunks i (i + batch_size)]\<rparr>)
            | Inr embeddings \<Rightarrow>
                embed_from self chunks batch_size (i + batch_size) (all_embeddings @ embeddings)
                  (eff\<lparr>encoded := encoded eff @ [slice chunks i (i + batch_size)]\<rparr>))"
  using assms by (subst embed_from.simps) (simp add: Let_def split: sum.splits)

text \<open>With a model that never raises, the embedding stage returns.\<close>

lemma embed_from_returns:
  assumes "\<And>batch. \<exists>v. model_encode self batch = Inr v"
  shows "\<exists>embeddings eff'. embed_from self chunks batch_size i all_embeddings eff = (Inr embeddings, eff')"
proof (induction "length chunks - i" arbitrary: i all_embeddings eff rule: less_induct)
  case less
  show ?case
  proof (cases "batch_size = 0 \<or> length chunks \<le> i")
    case True
    then show ?thesis
      by (simp add: embed_from_stop)
  next
    case False
    from assms obtain v where v: "model_encode self (slice chunks i (i + batch_size)) = Inr v"
      by blast
    from False have "length chunks - (i + batch_size) < length chunks - i"
      by arith
    from less.hyps [OF this] show ?thesis
      by (simp add: embed_from_step [OF False] v)
  qed
qed

text \<open>With a collection that never raises, the storage stage returns.\<close>

lemma store_from_returns:
  assumes "\<And>data. collection_insert self data = Inr ()"
      and "\<And>n. collection_flush self n = Inr ()"
  shows "\<exists>eff'. store_from self chunk_metadata_list embeddings batch_size i eff = (Inr (), eff')"
proof (induction "length chunk_metadata_list - i" arbitrary: i eff rule: less_induct)
  case less
  show ?case
  proof (cases "batch_size = 0 \<or> length chunk_metadata_list \<le> i")
    case True
    then show ?thesis
      by (simp add: store_from_stop)
  next
    case False
    from False have "length chunk_metadata_list - (i + batch_size) < length chunk_metadata_list - i"
      by arith
    from less.hyps [OF this] show ?thesis
      by (simp add: store_from_step [OF False refl] assms)
  qed
qed

lemma ingest_no_chunks:
  assumes "parse_repo_url repo_url = Some (repo_owner', repo_name')"
      and "fetch_repository_tree self repo_owner' repo_name' branch' = Inr files"
      and "0 < max_workers"
      and "process_files self files repo_owner' repo_name' branch' = []"
  shows "ingest_repository self repo_url branch' max_workers
           = (Inr (NoContent ''No processable content found''), no_effects)"
  using assms by (simp add: ingest_repository_def Let_def)

lemma ingest_outcome:
  assumes "parse_repo_url repo_url = Some (repo_owner', repo_name')"
      and "fetch_repository_tree self repo_owner' repo_name' branch' = Inr files"
      and "succeeded (fst (ingest_repository self repo_url branch' max_workers))"
  shows "process_files self files repo_owner' repo_name' branch' \<noteq> []
       \<and> generated (fst (ingest_repository self repo_url branch' max_workers))
           = length (process_files self files repo_owner' repo_name' branch')"
  using assms
  by (auto simp: ingest_repository_def Let_def split: if_splits sum.splits prod.splits)

lemma ingest_completes:
  assumes "parse_repo_url repo_url = Some (repo_owner', repo_name')"
      and "fetch_repository_tree self repo_owner' repo_name' branch' = Inr files"
      and "0 < max_workers"
      and "process_files self files repo_owner' repo_name' branch' \<noteq> []"
      and "\<And>batch. \<exists>v. model_encode self batch = Inr v"
      and "\<And>data. collection_insert self data = Inr ()"
      and "\<And>n. collection_flush self n = Inr ()"
  shows "succeeded (fst (ingest_repository self repo_url branch' max_workers))"
proof -
  let ?all = "process_files self files repo_owner' repo_name' branch'"
  from embed_from_returns [OF assms(5)] obtain embeddings eff where
    e: "generate_embeddings_batch self (map document ?all) 64 no_effects = (Inr embeddings, eff)"
    unfolding generate_embeddings_batch_def by simp blast
  from store_from_returns [OF assms(6,7)] obtain eff' where
    s: "store_chunks_batch self ?all embeddings 100 eff = (Inr (), eff')"
    unfolding store_chunks_batch_def by simp blast
  from assms(1-4) e s show ?thesis
    by (simp add: ingest_repository_def Let_def)
qed

declare fetch_repository_tree.simps [simp del]

lemma parse_s: "parse_repo_url ''https://github.com/o/s'' = Some (''o'', ''s'')"
  by code_simp

lemma parse_r: "parse_repo_url ''https://github.com/o/r/'' = Some (''o'', ''r'')"
  by code_simp

lemma tree_s:
  "fetch_repository_tree small_ingester ''o'' ''s'' ''main''
     = Inr (tree_files ''o'' ''s'' ''main'' [blob ''note.txt'' 10, blob ''text.txt'' 40])"
  by code_simp

lemma tree_r: "fetch_repository_tree small_ingester ''o'' ''r'' ''master''
                 = Inr [text_file, note_file, page_file]"
  by code_simp

lemma tree_r_main: "fetch_repository_tree small_ingester ''o'' ''r'' ''main'' = Inl (HTTPError 404)"
  by code_simp

lemma files_s:
  "process_files small_ingester
     (tree_files ''o'' ''s'' ''main'' [blob ''note.txt'' 10, blob ''text.txt'' 40])
     ''o'' ''s'' ''main'' = []"
  by code_simp

lemma process_page:
  "process_file small_ingester page_file ''o'' ''r'' ''master'' = Inr [page_record]"
proof (cases "process_file small_ingester page_file ''o'' ''r'' ''master''")
  case (Inl e)
  with records_page show ?thesis
    by (simp add: records_of_def)
next
  case (Inr records)
  with records_page show ?thesis
    by (simp add: records_of_def)
qed

lemma process_text: "process_file small_ingester text_file ''o'' ''r'' ''master'' = Inr []"
  by (rule process_file_skipped [OF fetch_text]) (simp add: strip_text)

lemma process_note: "process_file small_ingester note_file ''o'' ''r'' ''master'' = Inr []"
  by (rule process_file_skipped [OF fetch_note]) (simp add: strip_note)

lemma completes_small: "completes_at small_ingester path = 0"
  by (simp add: small_ingester_def)

lemma files_r:
  "process_files small_ingester [text_file, note_file, page_file] ''o'' ''r'' ''master''
     = [page_record]"
  by (simp add: process_files_def as_completed_def completes_small process_text process_note
      process_page)

text \<open>
  Claim C9. When the files of the repository give no chunk record at all,
  \<open>ingest_repository\<close> returns the result without success, with its message, and raises
  nothing; the embedding model and the collection have not been called. A run that ends
  with the success outcome has produced at least one chunk record, and reports their
  number.
\<close>

theorem zero_chunks_is_an_unsuccessful_result:
  assumes "parse_repo_url repo_url = Some (repo_owner', repo_name')"
      and "fetch_repository_tree self repo_owner' repo_name' branch' = Inr files"
      and "0 < max_workers"
  shows "(process_files self files repo_owner' repo_name' branch' = []
            \<longrightarrow> ingest_repository self repo_url branch' max_workers
                  = (Inr (NoContent ''No processable content found''), no_effects)
                \<and> \<not> success (NoContent ''No processable content found'')
                \<and> encoded no_effects = [] \<and> inserted no_effects = [] \<and> flushes no_effects = 0)
       \<and> (succeeded (fst (ingest_repository self repo_url branch' max_workers))
            \<longrightarrow> process_files self files repo_owner' repo_name' branch' \<noteq> []
                \<and> generated (fst (ingest_repository self repo_url branch' max_workers))
                    = length (process_files self files repo_owner' repo_name' branch')
                \<and> 1 \<le> generated (fst (ingest_repository self repo_url branch' max_workers)))"
proof -
  have a: "ingest_repository self repo_url branch' max_workers
                  = (Inr (NoContent ''No processable content found''), no_effects)"
    if "process_files self files repo_owner' repo_name' branch' = []"
    using assms that by (rule ingest_no_chunks)
  have b: "process_files self files repo_owner' repo_name' branch' \<noteq> []
                \<and> generated (fst (ingest_repository self repo_url branch' max_workers))
                    = length (process_files self files repo_owner' repo_name' branch')
                \<and> 1 \<le> generated (fst (ingest_repository self repo_url branch' max_workers))"
    if "succeeded (fst (ingest_repository self repo_url branch' max_workers))"
  proof -
    from ingest_outcome [OF assms(1,2) that]
    have n: "process_files self files repo_owner' repo_name' branch' \<noteq> []"
      and g: "generated (fst (ingest_repository self repo_url branch' max_workers))
                = length (process_files self files repo_owner' repo_name' branch')"
      by simp_all
    from n have "1 \<le> length (process_files self files repo_owner' repo_name' branch')"
      by (cases "process_files self files repo_owner' repo_name' branch'") simp_all
    with n g show ?thesis
      by simp
  qed
  have c: "\<not> success (NoContent ''No processable content found'')
           \<and> encoded no_effects = [] \<and> inserted no_effects = [] \<and> flushes no_effects = 0"
    by (simp add: no_effects_def)
  from a b c show ?thesis
    by blast
qed

theorem zero_chunks_is_an_unsuccessful_result_witness:
  "parse_repo_url ''https://github.com/o/s'' = Some (''o'', ''s'')
   \<and> fetch_repository_tree small_ingester ''o'' ''s'' ''main''
       = Inr (tree_files ''o'' ''s'' ''main'' [blob ''note.txt'' 10, blob ''text.txt'' 40])
   \<and> process_files small_ingester
        (tree_files ''o'' ''s'' ''main'' [blob ''note.txt'' 10, blob ''text.txt'' 40])
        ''o'' ''s'' ''main'' = []
   \<and> ingest_repository small_ingester ''https://github.com/o/s'' ''main'' 8
       = (Inr (NoContent ''No processable content found''), no_effects)
   \<and> parse_repo_url ''https://github.com/o/r/'' = Some (''o'', ''r'')
   \<and> fetch_repository_tree small_ingester ''o'' ''r'' ''master''
       = Inr [text_file, note_file, page_file]
   \<and> succeeded (fst (ingest_repository small_ingester ''https://github.com/o/r/'' ''master'' 8))
   \<and> generated (fst (ingest_repository small_ingester ''https://github.com/o/r/'' ''master'' 8)) = 1"
proof -
  have w: "(0::int) < 8"
    by simp
  have z: "ingest_repository small_ingester ''https://github.com/o/s'' ''main'' 8
       = (Inr (NoContent ''No processable content found''), no_effects)"
    using zero_chunks_is_an_unsuccessful_result [OF parse_s tree_s w] files_s by blast
  have n: "process_files small_ingester [text_file, note_file, page_file] ''o'' ''r'' ''master'' \<noteq> []"
    by (simp add: files_r)
  have e: "\<And>batch. \<exists>v. model_encode small_ingester batch = Inr v"
    by (simp add: small_encode)
  have s: "succeeded (fst (ingest_repository small_ingester ''https://github.com/o/r/'' ''master'' 8))"
    by (rule ingest_completes [OF parse_r tree_r w n e small_insert small_flush])
  have "generated (fst (ingest_repository small_ingester ''https://github.com/o/r/'' ''master'' 8)) = 1"
    using zero_chunks_is_an_unsuccessful_result [OF parse_r tree_r w] s files_r by simp
  with z s show ?thesis
    using parse_s tree_s files_s parse_r tree_r by simp
qed

text \<open>
  A repository request that is answered 404 is answered 404 again for the other branch:
  then the one retry ends in the error of the repository not found.
\<close>

lemma missing_repository:
  assumes "http_get self (''https://api.github.com/repos/'' @ repo_owner' @ ''/'' @ repo_name')
             = Inr response"
      and "status_code response = 404"
  shows "fetch_repository_tree self repo_owner' repo_name' branch'
           = Inl (ValueError (''Repository '' @ repo_owner' @ ''/'' @ repo_name'
                              @ '' not found or not accessible''))"
proof (cases "branch' = ''main''")
  case True
  from assms show ?thesis
    unfolding True
    by (subst fetch_repository_tree.simps, subst fetch_repository_tree.simps) simp
next
  case False
  with assms show ?thesis
    by (subst fetch_repository_tree.simps) simp
qed

text \<open>
  A repository that exists while the tree of its branch is answered 404: the error of
  that answer, whatever the branch, \<open>main\<close> too.
\<close>

lemma missing_branch:
  assumes "http_get self (''https://api.github.com/repos/'' @ repo_owner' @ ''/'' @ repo_name')
             = Inr response"
      and "status_code response = 200"
      and "http_get self (''https://api.github.com/repos/'' @ repo_owner' @ ''/'' @ repo_name'
                          @ ''/git/trees/'' @ branch' @ ''?recursive=1'') = Inr response2"
      and "status_code response2 = 404"
  shows "fetch_repository_tree self repo_owner' repo_name' branch' = Inl (HTTPError 404)"
  using assms by (subst fetch_repository_tree.simps) (simp add: raises_for_status_def)

text \<open>
  Claim C1. The claim is that a repository that has the branch \<open>master\<close> and no branch
  \<open>main\<close>, asked for with \<open>main\<close>, is fetched from \<open>master\<close>. The retry with
  \<open>master\<close> is tied to the answer to the repository request, which does not depend on
  the branch: for such a repository that answer is 200, the tree request for \<open>main\<close>
  is answered 404, and the error of that answer is raised, while the same repository
  asked for with \<open>master\<close> gives its files.
\<close>

theorem master_only_repository_is_not_fetched:
  "fetch_repository_tree small_ingester ''o'' ''r'' ''main'' = Inl (HTTPError 404)
   \<and> fetch_repository_tree small_ingester ''o'' ''r'' ''master''
       = Inr [text_file, note_file, page_file]
   \<and> fst (ingest_repository small_ingester ''https://github.com/o/r/'' ''main'' 8)
       = Inl (HTTPError 404)"
  by (simp add: tree_r tree_r_main ingest_repository_def parse_r)

end
